theory Spec2Isabelle
  imports
    Complex_Main
    "HOL-Library.Multiset"
    "HOL-Library.Product_Lexorder"
    "HOL-Library.List_Lexorder"
    "HOL-Library.Char_ord"
begin

section \<open>The data model\<close>

text \<open>
  The notebook \<^verbatim>\<open>covidtracker-usa.ipynb\<close> reads the county table with
  \<^verbatim>\<open>pd.read_csv('covid-19-data/us-counties.csv', parse_dates=['date'])\<close>; its columns are
  \<^verbatim>\<open>date, county, state, fips, cases, deaths\<close>. A data frame is modelled as the list of
  its rows in positional order. A date is the number of its day. A cell of \<^verbatim>\<open>fips\<close>,
  \<^verbatim>\<open>cases\<close> or \<^verbatim>\<open>deaths\<close> that is empty in the file is NaN in the frame, here
  \<open>None\<close>; the other cells of the two count columns are whole numbers. Every record names
  a state and a county (the data model of the specification: a case record is a date, a
  state, a county, a FIPS code and two cumulative counts).

  A count column without an empty cell has the dtype int64; a count column with an empty
  cell has the dtype float64, and its cells hold float64 values.

  The columns \<^verbatim>\<open>state\<close> and \<^verbatim>\<open>county\<close> are converted to categoricals whose
  categories are the sorted distinct strings, so that sorting by them is sorting the
  strings; strings are compared lexicographically, character by character.
\<close>

record case_record =
  date :: int
  county :: string
  state :: string
  fips :: "int option"
  cases :: "int option"
  deaths :: "int option"

record derived_record = case_record +
  daily_cases :: int
  daily_deaths :: int

text \<open>Adding the two daily columns to a record, and dropping them again.\<close>

definition with_daily :: "case_record \<Rightarrow> int \<Rightarrow> int \<Rightarrow> derived_record" where
  "with_daily r dc dd =
     \<lparr>date = date r, county = county r, state = state r, fips = fips r,
      cases = cases r, deaths = deaths r, daily_cases = dc, daily_deaths = dd\<rparr>"

definition original_columns :: "derived_record \<Rightarrow> case_record" where
  "original_columns r =
     \<lparr>date = date r, county = county r, state = state r, fips = fips r,
      cases = cases r, deaths = deaths r\<rparr>"

text \<open>The exception that the transform can raise.\<close>

datatype error = ValueError

section \<open>Machine numbers\<close>

text \<open>
  The arithmetic of the transform runs on 64-bit integers and on float64 values that are
  whole numbers; both are modelled as integers, with the wrap-around and the rounding
  written out.
\<close>

text \<open>An int64 operation wraps around into the range from \<open>-2^63\<close> to \<open>2^63 - 1\<close>.\<close>

definition int64 :: "int \<Rightarrow> int" where
  "int64 x = (x + 2 ^ 63) mod 2 ^ 64 - 2 ^ 63"

text \<open>
  A float64 has 53 significant binary digits. The spacing of the float64 values around a
  whole number \<open>a\<close> beyond \<open>2^53\<close> is the least power of two \<open>u\<close> with
  \<open>a < 2^53 * u\<close>, found by doubling.
\<close>

function float64_unit :: "int \<Rightarrow> int \<Rightarrow> int" where
  "float64_unit u a = (if u \<le> 0 \<or> a < 2 ^ 53 * u then u else float64_unit (2 * u) a)"
  by pat_completeness auto
termination
  by (relation "measure (\<lambda>(u, a). nat (a + 1 - 2 ^ 53 * u))") auto

declare float64_unit.simps [simp del]

text \<open>
  The float64 value nearest to a whole number, ties going to the even significand: whole
  numbers up to \<open>2^53\<close> in magnitude are kept, larger ones are rounded to a multiple of
  the spacing.
\<close>

definition float64 :: "int \<Rightarrow> int" where
  "float64 x =
     (if \<bar>x\<bar> \<le> 2 ^ 53 then x
      else
        (let u = float64_unit 1 \<bar>x\<bar>;
             q = \<bar>x\<bar> div u;
             r = \<bar>x\<bar> mod u;
             q' = (if 2 * r > u \<or> (2 * r = u \<and> odd q) then q + 1 else q)
         in sgn x * (q' * u)))"

text \<open>
  \<^verbatim>\<open>astype('int')\<close> on a whole float64 value gives that int64; for a value outside the
  int64 range the conversion gives the least int64 (the result of the conversion on
  x86-64, where \<^verbatim>\<open>'int'\<close> is int64).
\<close>

definition astype_int :: "int \<Rightarrow> int" where
  "astype_int v = (if - (2 ^ 63) \<le> v \<and> v < 2 ^ 63 then v else - (2 ^ 63))"

section \<open>The delta transform\<close>

text \<open>
  \<^verbatim>\<open>
  local_dfs = list()
  for state, county in tqdm(us_counties.groupby(['state', 'county']).groups.keys(), ...):
      ldf = us_counties[(us_counties.state == state) & (us_counties.county == county)].copy()
      ldf['daily_cases'] = ldf['cases'].diff().fillna(0).astype('int')
      ldf['daily_deaths'] = ldf['deaths'].diff().fillna(0).astype('int')
      local_dfs.append(ldf)

  full_df = pd.concat(local_dfs, ignore_index=True)
              .sort_values(by=['date', 'state', 'county']).reindex()
  \<close>
\<close>

text \<open>A column of the table is float64 when one of its cells is NaN.\<close>

definition float_dtype :: "int option list \<Rightarrow> bool" where
  "float_dtype col = (None \<in> set col)"

text \<open>
  \<^verbatim>\<open>Series.diff()\<close>: the first cell is NaN, every later cell is the difference to the
  cell before it, in the positional order of the series. The result is a float64 series.
  On an int64 column the two cells are subtracted as int64 and the difference is
  converted to float64; on a float64 column the difference is a float64 subtraction, NaN
  when one of the two cells is NaN.
\<close>

definition diff_cell :: "bool \<Rightarrow> int option \<Rightarrow> int option \<Rightarrow> int option" where
  "diff_cell is_float p x =
     (case (p, x) of
        (Some a, Some b) \<Rightarrow> Some (float64 (if is_float then b - a else int64 (b - a)))
      | _ \<Rightarrow> None)"

fun diff_from :: "bool \<Rightarrow> int option \<Rightarrow> int option list \<Rightarrow> int option list" where
  "diff_from is_float p [] = []"
| "diff_from is_float p (x # xs) = diff_cell is_float p x # diff_from is_float x xs"

fun diff :: "bool \<Rightarrow> int option list \<Rightarrow> int option list" where
  "diff is_float [] = []"
| "diff is_float (x # xs) = None # diff_from is_float x xs"

text \<open>\<^verbatim>\<open>Series.fillna(v)\<close> replaces the NaN cells by \<open>v\<close>.\<close>

definition fillna :: "int \<Rightarrow> int option list \<Rightarrow> int list" where
  "fillna v xs = map (\<lambda>x. case x of None \<Rightarrow> v | Some y \<Rightarrow> y) xs"

text \<open>
  The keys of \<^verbatim>\<open>us_counties.groupby(['state', 'county']).groups\<close>: the pairs that occur
  in the table, each once, in sorted order. (A pair of categories that occurs in no row
  would select no row in the loop body and add nothing to the concatenation.)
\<close>

definition groups_keys :: "case_record list \<Rightarrow> (string \<times> string) list" where
  "groups_keys us_counties = sort (remdups (map (\<lambda>r. (state r, county r)) us_counties))"

text \<open>
  The boolean mask keeps the rows of one locality in the order of the input table; no
  sorting takes place before \<^verbatim>\<open>diff\<close>. The selected rows keep the dtypes of the
  columns of the whole table.
\<close>

definition locality_rows :: "case_record list \<Rightarrow> string \<Rightarrow> string \<Rightarrow> case_record list" where
  "locality_rows us_counties s c = filter (\<lambda>r. state r = s \<and> county r = c) us_counties"

definition add_daily_columns :: "bool \<Rightarrow> bool \<Rightarrow> case_record list \<Rightarrow> derived_record list" where
  "add_daily_columns cases_float deaths_float sel =
     (let dc = map astype_int (fillna 0 (diff cases_float (map cases sel)));
          dd = map astype_int (fillna 0 (diff deaths_float (map deaths sel)))
      in map (\<lambda>(r, a, b). with_daily r a b) (zip sel (zip dc dd)))"

definition ldf :: "case_record list \<Rightarrow> string \<Rightarrow> string \<Rightarrow> derived_record list" where
  "ldf us_counties s c =
     add_daily_columns (float_dtype (map cases us_counties)) (float_dtype (map deaths us_counties))
       (locality_rows us_counties s c)"

definition local_dfs :: "case_record list \<Rightarrow> derived_record list list" where
  "local_dfs us_counties = map (\<lambda>(s, c). ldf us_counties s c) (groups_keys us_counties)"

text \<open>
  \<^verbatim>\<open>pd.concat\<close> raises \<^verbatim>\<open>ValueError\<close> (no objects to concatenate) on an empty list of
  frames, which is what the loop leaves for a table without records.
\<close>

definition concat_frames :: "'a list list \<Rightarrow> error + 'a list" where
  "concat_frames objs = (if objs = [] then Inl ValueError else Inr (concat objs))"

text \<open>
  \<^verbatim>\<open>sort_values\<close> with several columns is a stable lexicographic sort; \<^verbatim>\<open>reindex()\<close>
  without arguments and \<^verbatim>\<open>ignore_index\<close> do not touch the rows.
\<close>

definition sort_columns :: "'a case_record_scheme \<Rightarrow> int \<times> string \<times> string" where
  "sort_columns r = (date r, state r, county r)"

definition full_df :: "case_record list \<Rightarrow> error + derived_record list" where
  "full_df us_counties =
     (case concat_frames (local_dfs us_counties) of
        Inl e \<Rightarrow> Inl e
      | Inr df \<Rightarrow> Inr (sort_key sort_columns df))"

text \<open>
  The transform as the specification words it: each group is sorted by date before the
  differences are taken. It is compared with \<open>full_df\<close> below.
\<close>

definition ldf_spec :: "case_record list \<Rightarrow> string \<Rightarrow> string \<Rightarrow> derived_record list" where
  "ldf_spec us_counties s c =
     add_daily_columns (float_dtype (map cases us_counties)) (float_dtype (map deaths us_counties))
       (sort_key date (locality_rows us_counties s c))"

definition full_df_spec :: "case_record list \<Rightarrow> error + derived_record list" where
  "full_df_spec us_counties =
     (case concat_frames (map (\<lambda>(s, c). ldf_spec us_counties s c) (groups_keys us_counties)) of
        Inl e \<Rightarrow> Inl e
      | Inr df \<Rightarrow> Inr (sort_key sort_columns df))"

text \<open>The rows of one locality in a derived table, in the order of that table.\<close>

definition locality_group :: "derived_record list \<Rightarrow> string \<Rightarrow> string \<Rightarrow> derived_record list" where
  "locality_group df s c = filter (\<lambda>r. state r = s \<and> county r = c) df"

text \<open>
  Accumulating daily figures: a running sum that starts from a given value, and the
  reconstruction of a cumulative column of a group from the cumulative value of its first
  row and the daily column of all its rows (nothing is reconstructed from a first value
  that is NaN).
\<close>

fun accumulate :: "int \<Rightarrow> int list \<Rightarrow> int list" where
  "accumulate a [] = []"
| "accumulate a (x # xs) = (a + x) # accumulate (a + x) xs"

definition accumulate_from_first ::
  "(derived_record \<Rightarrow> int option) \<Rightarrow> (derived_record \<Rightarrow> int) \<Rightarrow> derived_record list \<Rightarrow>
   int option list" where
  "accumulate_from_first cumulative daily g =
     (case g of
        [] \<Rightarrow> []
      | r # _ \<Rightarrow>
          (case cumulative r of
             None \<Rightarrow> map (\<lambda>_. None) g
           | Some a \<Rightarrow> map Some (accumulate a (map daily g))))"

text \<open>
  A cumulative column whose differences the transform computes exactly: no cell is NaN,
  and from one cell to the next the value changes by at most \<open>2^53\<close>.
\<close>

fun exact_differences :: "int option list \<Rightarrow> bool" where
  "exact_differences [] = True"
| "exact_differences [x] = (x \<noteq> None)"
| "exact_differences (x # y # ys) =
     ((case (x, y) of (Some a, Some b) \<Rightarrow> \<bar>b - a\<bar> \<le> 2 ^ 53 | _ \<Rightarrow> False)
      \<and> exact_differences (y # ys))"

subsection \<open>Example tables\<close>

definition fairfax :: "int \<Rightarrow> int \<Rightarrow> int \<Rightarrow> case_record" where
  "fairfax d c x =
     \<lparr>date = d, county = ''Fairfax'', state = ''Virginia'', fips = Some 51059,
      cases = Some c, deaths = Some x\<rparr>"

definition kent :: "int \<Rightarrow> int \<Rightarrow> int \<Rightarrow> case_record" where
  "kent d c x =
     \<lparr>date = d, county = ''Kent'', state = ''Delaware'', fips = Some 10001,
      cases = Some c, deaths = Some x\<rparr>"

text \<open>Two localities, each in date order, interleaved as in the source data set.\<close>

definition dated_table :: "case_record list" where
  "dated_table = [fairfax 1 10 0, kent 1 2 0, fairfax 2 15 1, kent 2 2 0, fairfax 3 20 1]"

definition dated_full :: "derived_record list" where
  "dated_full =
     [with_daily (kent 1 2 0) 0 0, with_daily (fairfax 1 10 0) 0 0,
      with_daily (kent 2 2 0) 0 0, with_daily (fairfax 2 15 1) 5 1,
      with_daily (fairfax 3 20 1) 5 0]"

text \<open>One locality whose later day comes first in the file, and the output for it.\<close>

definition unordered_table :: "case_record list" where
  "unordered_table = [fairfax 2 15 1, fairfax 1 10 0]"

definition unordered_full :: "derived_record list" where
  "unordered_full = [with_daily (fairfax 1 10 0) (- 5) (- 1), with_daily (fairfax 2 15 1) 0 0]"

text \<open>
  One locality with the cumulative cases 10, 15, 20 on the days 1, 2, 3, the second day
  coming first in the file.
\<close>

definition shuffled_table :: "case_record list" where
  "shuffled_table = [fairfax 2 15 1, fairfax 1 10 0, fairfax 3 20 1]"

definition shuffled_full :: "derived_record list" where
  "shuffled_full =
     [with_daily (fairfax 1 10 0) (- 5) (- 1), with_daily (fairfax 2 15 1) 0 0,
      with_daily (fairfax 3 20 1) 10 1]"

text \<open>One locality in date order, the deaths of the second day missing in the file.\<close>

definition gap_table :: "case_record list" where
  "gap_table = [fairfax 1 10 1, (fairfax 2 15 0)\<lparr>deaths := None\<rparr>, fairfax 3 20 3]"

definition gap_full :: "derived_record list" where
  "gap_full =
     [with_daily (fairfax 1 10 1) 0 0, with_daily ((fairfax 2 15 0)\<lparr>deaths := None\<rparr>) 5 0,
      with_daily (fairfax 3 20 3) 5 0]"

text \<open>One locality in date order whose cases grow by \<open>2^53 + 1\<close>.\<close>

definition huge_table :: "case_record list" where
  "huge_table = [fairfax 1 0 0, fairfax 2 9007199254740993 0]"

definition huge_full :: "derived_record list" where
  "huge_full =
     [with_daily (fairfax 1 0 0) 0 0,
      with_daily (fairfax 2 9007199254740993 0) 9007199254740992 0]"

section \<open>The visualisation functions\<close>

text \<open>
  \<^verbatim>\<open>
  ROLLING_AVERAGE_DAYS = 7
  RECENT_DAYS = 14
  CFR_CASE_LOOKBACK_DAYS = 14
  \<close>
\<close>

definition ROLLING_AVERAGE_DAYS :: nat where
  "ROLLING_AVERAGE_DAYS = 7"

definition RECENT_DAYS :: nat where
  "RECENT_DAYS = 14"

definition CFR_CASE_LOOKBACK_DAYS :: nat where
  "CFR_CASE_LOOKBACK_DAYS = 14"

subsection \<open>Selecting and aggregating\<close>

text \<open>
  The numeric columns of the derived table that \<^verbatim>\<open>plot_timeseries\<close> is called with.
  A sum over a column skips its NaN cells, which add nothing to it.
\<close>

datatype column = Cases | Deaths | Daily_cases | Daily_deaths

definition present :: "int option \<Rightarrow> int" where
  "present x = (case x of None \<Rightarrow> 0 | Some v \<Rightarrow> v)"

fun column_value :: "column \<Rightarrow> derived_record \<Rightarrow> int" where
  "column_value Cases r = present (cases r)"
| "column_value Deaths r = present (deaths r)"
| "column_value Daily_cases r = daily_cases r"
| "column_value Daily_deaths r = daily_deaths r"

text \<open>
  An optional argument is \<open>None\<close> for Python's \<^verbatim>\<open>None\<close>; \<^verbatim>\<open>None\<close> and the empty
  string are the falsy values.
\<close>

definition truthy :: "string option \<Rightarrow> bool" where
  "truthy v = (case v of None \<Rightarrow> False | Some s \<Rightarrow> s \<noteq> [])"

text \<open>
  \<^verbatim>\<open>
  if state:
      df = df[df.state == state]
      if county and not county == '':
          df = df[df.county == county]
  \<close>
\<close>

definition select_locality ::
  "derived_record list \<Rightarrow> string option \<Rightarrow> string option \<Rightarrow> derived_record list" where
  "select_locality df state_arg county_arg =
     (if truthy state_arg then
        (let df1 = filter (\<lambda>r. Some (state r) = state_arg) df
         in if truthy county_arg \<and> \<not> county_arg = Some []
            then filter (\<lambda>r. Some (county r) = county_arg) df1
            else df1)
      else df)"

text \<open>
  \<^verbatim>\<open>df[['date', column]].groupby('date').sum().sort_index()[column]\<close>: one entry for each
  date of the table, in ascending order of the dates, holding the sum of the column over
  the rows of that date.
\<close>

definition groupby_date_sum :: "('r \<Rightarrow> int) \<Rightarrow> ('r \<Rightarrow> int) \<Rightarrow> 'r list \<Rightarrow> (int \<times> int) list" where
  "groupby_date_sum on_date col df =
     map (\<lambda>d. (d, sum_list (map col (filter (\<lambda>r. on_date r = d) df))))
       (sort (remdups (map on_date df)))"

definition local_series ::
  "derived_record list \<Rightarrow> column \<Rightarrow> string option \<Rightarrow> string option \<Rightarrow> (int \<times> real) list" where
  "local_series df col state_arg county_arg =
     map (\<lambda>(d, v). (d, real_of_int v))
       (groupby_date_sum date (column_value col) (select_locality df state_arg county_arg))"

subsection \<open>Anomalies of a residual series\<close>

text \<open>
  \<^verbatim>\<open>
  anomalies = seasonal.resid[abs(seasonal.resid - seasonal.resid.mean())
                               >= (anomaly_threshold * seasonal.resid.std())]
  \<close>
  A series is the list of its (index, value) entries, the values real numbers. The mean
  and the standard deviation are NaN, here \<open>None\<close>, when they are undefined; a
  comparison with NaN is false, so that no entry is selected then.

  The mask takes the two statistics as the data-frame library reports them, and computes
  one difference and one product in float64 arithmetic: the statistics and the rounding
  of a real number to float64 are parameters of the model. The absolute value and the
  comparison of float64 values are exact.
\<close>

definition anomalies_with ::
  "(real \<Rightarrow> real) \<Rightarrow> real option \<Rightarrow> real option \<Rightarrow> (int \<times> real) list \<Rightarrow> real \<Rightarrow>
   (int \<times> real) list" where
  "anomalies_with rnd resid_mean resid_std resid_series anomaly_threshold =
     (case (resid_mean, resid_std) of
        (Some m, Some sd) \<Rightarrow>
          filter (\<lambda>(d, x). \<bar>rnd (x - m)\<bar> \<ge> rnd (anomaly_threshold * sd)) resid_series
      | _ \<Rightarrow> [])"

text \<open>
  The exact statistics: \<^verbatim>\<open>Series.mean()\<close> of an empty series and \<^verbatim>\<open>Series.std()\<close>
  (the sample standard deviation, with \<open>n - 1\<close> in the denominator) of a series of fewer
  than two entries are NaN. With them and without rounding, the mask is \<open>anomalies_of\<close>.
\<close>

definition mean :: "real list \<Rightarrow> real option" where
  "mean xs = (if xs = [] then None else Some (sum_list xs / real (length xs)))"

definition std :: "real list \<Rightarrow> real option" where
  "std xs =
     (case mean xs of
        None \<Rightarrow> None
      | Some m \<Rightarrow>
          if length xs < 2 then None
          else Some (sqrt (sum_list (map (\<lambda>x. (x - m)\<^sup>2) xs) / real (length xs - 1))))"

definition anomalies_of :: "(int \<times> real) list \<Rightarrow> real \<Rightarrow> (int \<times> real) list" where
  "anomalies_of resid_series anomaly_threshold =
     anomalies_with (\<lambda>v. v) (mean (map snd resid_series)) (std (map snd resid_series))
       resid_series anomaly_threshold"

text \<open>
  The selection as the specification words it: the residual deviates from the mean by
  \<^emph>\<open>more than\<close> the multiple of the standard deviation.
\<close>

definition anomalies_spec :: "(int \<times> real) list \<Rightarrow> real \<Rightarrow> (int \<times> real) list" where
  "anomalies_spec resid_series anomaly_threshold =
     (case (mean (map snd resid_series), std (map snd resid_series)) of
        (Some m, Some sd) \<Rightarrow>
          filter (\<lambda>(d, x). \<bar>x - m\<bar> > anomaly_threshold * sd) resid_series
      | _ \<Rightarrow> [])"

subsection \<open>\<^verbatim>\<open>plot_timeseries\<close>\<close>

text \<open>
  The seasonal-trend decomposition \<^verbatim>\<open>STL(local_series, robust=True).fit()\<close> belongs to
  the statistics library, not to this repository: it is a parameter of the model, which
  either raises (\<open>None\<close>) or returns the three components, indexed like the series.
\<close>

record stl_fit =
  trend :: "real list"
  seasonal :: "real list"
  resid :: "real list"

text \<open>
  The library functions that \<^verbatim>\<open>plot_timeseries\<close> calls on the residuals:
  the decomposition, \<^verbatim>\<open>Series.mean()\<close>, \<^verbatim>\<open>Series.std()\<close> and the rounding of the
  float64 arithmetic.
\<close>

record libraries =
  STL :: "(int \<times> real) list \<Rightarrow> stl_fit option"
  series_mean :: "real list \<Rightarrow> real option"
  series_std :: "real list \<Rightarrow> real option"
  float_round :: "real \<Rightarrow> real"

text \<open>
  \<^verbatim>\<open>local_series.rolling(ROLLING_AVERAGE_DAYS).mean()\<close>: the mean of the last \<open>w\<close> values,
  missing while fewer than \<open>w\<close> values have been seen.
\<close>

definition rolling_mean :: "nat \<Rightarrow> real list \<Rightarrow> real option list" where
  "rolling_mean w xs =
     map (\<lambda>i. if i + 1 < w then None
              else Some (sum_list (take w (drop (i + 1 - w) xs)) / real w))
       [0..<length xs]"

text \<open>The figure: the traces that \<^verbatim>\<open>plot_timeseries\<close> adds, and the title.\<close>

record figure =
  series_trace :: "(int \<times> real) list"
  baseline_name :: string
  baseline_trace :: "(int \<times> real option) list"
  anomalies_trace :: "(int \<times> real) list"
  title :: string

text \<open>
  \<^verbatim>\<open>
  def plot_timeseries(df, column, state=None, county=None, anomaly_threshold=3,
                      baseline_type='ra', title="Untitled"):
  \<close>
  An optional argument that is not passed is \<open>None\<close> and takes its default. The anomaly
  markers are drawn at \<^verbatim>\<open>local_series.loc[anomalies.index]\<close>: the entries of the series at
  the selected dates (the dates of the series are distinct).
\<close>

definition plot_timeseries ::
  "libraries \<Rightarrow> derived_record list \<Rightarrow> column \<Rightarrow>
   string option \<Rightarrow> string option \<Rightarrow> real option \<Rightarrow> string option \<Rightarrow> string option \<Rightarrow>
   figure option" where
  "plot_timeseries lib df col state_arg county_arg anomaly_threshold baseline_type title_arg =
     (let threshold = (case anomaly_threshold of None \<Rightarrow> 3 | Some t \<Rightarrow> t);
          btype = (case baseline_type of None \<Rightarrow> ''ra'' | Some b \<Rightarrow> b);
          ttl = (case title_arg of None \<Rightarrow> ''Untitled'' | Some t \<Rightarrow> t);
          ls = local_series df col state_arg county_arg;
          idx = map fst ls
      in case STL lib ls of
           None \<Rightarrow> None
         | Some fit \<Rightarrow>
             (let anomalies =
                    anomalies_with (float_round lib) (series_mean lib (resid fit))
                      (series_std lib (resid fit)) (zip idx (resid fit)) threshold
              in Some
                \<lparr>series_trace = ls,
                 baseline_name =
                   (if btype = ''trend'' \<or> btype = ''trend_seasonal''
                    then ''Basline (Trend + Seasonal)'' else ''Baseline (Rolling Average)''),
                 baseline_trace =
                   (if btype = ''trend'' \<or> btype = ''trend_seasonal''
                    then zip idx (map Some (map2 (+) (trend fit) (seasonal fit)))
                    else zip idx (rolling_mean ROLLING_AVERAGE_DAYS (map snd ls))),
                 anomalies_trace = filter (\<lambda>(d, y). d \<in> set (map fst anomalies)) ls,
                 title = ttl\<rparr>))"

subsection \<open>The interactive controller\<close>

text \<open>
  \<^verbatim>\<open>
  def make_plots(state, county):
      locality_df = full_df
      if state != '':
          locality_df = locality_df[locality_df.state == state]
      if county != '':
          locality_df = locality_df[locality_df.county == county]
      locality_df = locality_df.groupby(['date']).agg(sum).reset_index()
  \<close>
  The two arguments are the values of the dropdown widgets, strings. The boolean masks
  compare a column with a string and keep the rows that are equal to it, whether or not
  the string occurs in the column. The case-fatality ratio that the function computes
  next is a quotient of floating-point columns and is not part of this model.
\<close>

definition locality_selection ::
  "derived_record list \<Rightarrow> string \<Rightarrow> string \<Rightarrow> derived_record list" where
  "locality_selection full state_arg county_arg =
     (let l1 = (if state_arg \<noteq> [] then filter (\<lambda>r. state r = state_arg) full else full);
          l2 = (if county_arg \<noteq> [] then filter (\<lambda>r. county r = county_arg) l1 else l1)
      in l2)"

text \<open>
  The aggregated table: one row for each date, with the sums of the count columns, a sum
  skipping the NaN cells.
\<close>

record date_totals =
  on_date :: int
  sum_cases :: int
  sum_deaths :: int
  sum_daily_cases :: int
  sum_daily_deaths :: int

definition agg_sum_by_date :: "derived_record list \<Rightarrow> date_totals list" where
  "agg_sum_by_date df =
     map (\<lambda>d. let rs = filter (\<lambda>r. date r = d) df
              in \<lparr>on_date = d,
                  sum_cases = sum_list (map (present \<circ> cases) rs),
                  sum_deaths = sum_list (map (present \<circ> deaths) rs),
                  sum_daily_cases = sum_list (map daily_cases rs),
                  sum_daily_deaths = sum_list (map daily_deaths rs)\<rparr>)
       (sort (remdups (map date df)))"

definition locality_df :: "derived_record list \<Rightarrow> string \<Rightarrow> string \<Rightarrow> date_totals list" where
  "locality_df full state_arg county_arg =
     agg_sum_by_date (locality_selection full state_arg county_arg)"

subsection \<open>Example inputs of the visualisation functions\<close>

text \<open>
  The libraries with a given decomposition, the exact statistics and no rounding (as
  float64 arithmetic is on the small whole numbers of the examples below).
\<close>

definition exact_libraries :: "((int \<times> real) list \<Rightarrow> stl_fit option) \<Rightarrow> libraries" where
  "exact_libraries fit =
     \<lparr>STL = fit, series_mean = mean, series_std = std, float_round = (\<lambda>v. v)\<rparr>"

text \<open>A decomposition that leaves no residual, as that of a series of zeros.\<close>

definition zero_resid_fit :: "(int \<times> real) list \<Rightarrow> stl_fit option" where
  "zero_resid_fit ls =
     Some \<lparr>trend = map snd ls, seasonal = map (\<lambda>_. 0) ls, resid = map (\<lambda>_. 0) ls\<rparr>"

text \<open>A decomposition with the constant trend 1 and no seasonal component.\<close>

definition unit_trend_fit :: "(int \<times> real) list \<Rightarrow> stl_fit option" where
  "unit_trend_fit ls =
     Some \<lparr>trend = map (\<lambda>_. 1) ls, seasonal = map (\<lambda>_. 0) ls,
           resid = map (\<lambda>(d, v). v - 1) ls\<rparr>"

text \<open>A locality without new cases or deaths on three days, and the output for it.\<close>

definition quiet_table :: "case_record list" where
  "quiet_table = [kent 1 2 0, kent 2 2 0, kent 3 2 0]"

definition quiet_full :: "derived_record list" where
  "quiet_full =
     [with_daily (kent 1 2 0) 0 0, with_daily (kent 2 2 0) 0 0, with_daily (kent 3 2 0) 0 0]"

text \<open>The figure of its daily deaths: every point of the series carries a marker.\<close>

definition quiet_figure :: figure where
  "quiet_figure =
     \<lparr>series_trace = [(1, 0), (2, 0), (3, 0)],
      baseline_name = ''Baseline (Rolling Average)'',
      baseline_trace = [(1, None), (2, None), (3, None)],
      anomalies_trace = [(1, 0), (2, 0), (3, 0)],
      title = ''Untitled''\<rparr>"

text \<open>
  A locality with the daily cases 0, 2, 0, 2, 1 on five days, and the figure of its daily
  cases for the threshold 1 and the constant trend 1: the residuals are -1, 1, -1, 1, 0,
  with mean 0 and standard deviation 1, and the first four points carry a marker.
\<close>

definition wavy_table :: "case_record list" where
  "wavy_table = [kent 1 5 0, kent 2 7 0, kent 3 7 0, kent 4 9 0, kent 5 10 0]"

definition wavy_full :: "derived_record list" where
  "wavy_full =
     [with_daily (kent 1 5 0) 0 0, with_daily (kent 2 7 0) 2 0, with_daily (kent 3 7 0) 0 0,
      with_daily (kent 4 9 0) 2 0, with_daily (kent 5 10 0) 1 0]"

definition wavy_figure :: figure where
  "wavy_figure =
     \<lparr>series_trace = [(1, 0), (2, 2), (3, 0), (4, 2), (5, 1)],
      baseline_name = ''Baseline (Rolling Average)'',
      baseline_trace = [(1, None), (2, None), (3, None), (4, None), (5, None)],
      anomalies_trace = [(1, 0), (2, 2), (3, 0), (4, 2)],
      title = ''Untitled''\<rparr>"

text \<open>A residual series with mean 0 and standard deviation 1.\<close>

definition resid_example :: "(int \<times> real) list" where
  "resid_example = [(1, - 1), (2, 1), (3, - 1), (4, 1), (5, 0)]"

section \<open>Properties of the machine numbers\<close>

lemma float64_exact: "\<bar>x\<bar> \<le> 2 ^ 53 \<Longrightarrow> float64 x = x"
  by (simp add: float64_def)

lemma int64_exact: "- (2 ^ 63) \<le> x \<Longrightarrow> x < 2 ^ 63 \<Longrightarrow> int64 x = x"
  by (simp add: int64_def)

lemma astype_int_exact: "- (2 ^ 63) \<le> v \<Longrightarrow> v < 2 ^ 63 \<Longrightarrow> astype_int v = v"
  by (simp add: astype_int_def)

lemma astype_int_zero: "astype_int 0 = 0"
  by (simp add: astype_int_def)

lemma diff_cell_exact:
  assumes "\<bar>b - a\<bar> \<le> 2 ^ 53"
  shows "diff_cell is_float (Some a) (Some b) = Some (b - a)"
    and "astype_int (b - a) = b - a"
proof -
  have range: "- (2 ^ 63) \<le> b - a" "b - a < 2 ^ 63"
    using assms by simp_all
  then have "int64 (b - a) = b - a"
    by (rule int64_exact)
  then show "diff_cell is_float (Some a) (Some b) = Some (b - a)"
    using assms by (simp add: diff_cell_def float64_exact)
  show "astype_int (b - a) = b - a"
    using range by (rule astype_int_exact)
qed

lemma float64_huge: "float64 9007199254740993 = 9007199254740992"
  by (simp add: float64_def float64_unit.simps)

section \<open>Properties of the delta transform\<close>

subsection \<open>The daily columns of one locality\<close>

lemma length_diff_from: "length (diff_from is_float p xs) = length xs"
  by (induction xs arbitrary: p) simp_all

lemma length_diff: "length (diff is_float xs) = length xs"
  by (cases xs) (simp_all add: length_diff_from)

lemma length_fillna: "length (fillna v xs) = length xs"
  by (simp add: fillna_def)

lemma map_fst_zip3:
  "length as = length xs \<Longrightarrow> length bs = length xs \<Longrightarrow>
   map (\<lambda>(r, a, b). f r) (zip xs (zip as bs)) = map f xs"
  by (induction xs arbitrary: as bs) (auto simp: length_Suc_conv)

lemma map_snd_zip3:
  "length as = length xs \<Longrightarrow> length bs = length xs \<Longrightarrow>
   map (\<lambda>(r, a, b). a) (zip xs (zip as bs)) = as"
  by (induction xs arbitrary: as bs) (auto simp: length_Suc_conv)

lemma map_thd_zip3:
  "length as = length xs \<Longrightarrow> length bs = length xs \<Longrightarrow>
   map (\<lambda>(r, a, b). b) (zip xs (zip as bs)) = bs"
  by (induction xs arbitrary: as bs) (auto simp: length_Suc_conv)

lemma original_columns_with_daily: "original_columns (with_daily r a b) = r"
  by (simp add: original_columns_def with_daily_def)

lemma original_columns_fields:
  "date (original_columns r) = date r"
  "state (original_columns r) = state r"
  "county (original_columns r) = county r"
  "fips (original_columns r) = fips r"
  "cases (original_columns r) = cases r"
  "deaths (original_columns r) = deaths r"
  by (simp_all add: original_columns_def)

lemma map_original_columns_add_daily:
  "map original_columns (add_daily_columns cf df sel) = sel"
proof -
  have "map original_columns (add_daily_columns cf df sel) =
    map (\<lambda>(r, a, b). r) (zip sel
      (zip (map astype_int (fillna 0 (diff cf (map cases sel))))
           (map astype_int (fillna 0 (diff df (map deaths sel))))))"
    by (simp add: add_daily_columns_def Let_def case_prod_unfold original_columns_with_daily o_def)
  also have "\<dots> = map (\<lambda>r. r) sel"
    by (rule map_fst_zip3) (simp_all add: length_fillna length_diff)
  finally show ?thesis by simp
qed

lemma map_daily_cases_add_daily:
  "map daily_cases (add_daily_columns cf df sel) =
   map astype_int (fillna 0 (diff cf (map cases sel)))"
proof -
  have "map daily_cases (add_daily_columns cf df sel) =
    map (\<lambda>(r, a, b). a) (zip sel
      (zip (map astype_int (fillna 0 (diff cf (map cases sel))))
           (map astype_int (fillna 0 (diff df (map deaths sel))))))"
    by (simp add: add_daily_columns_def Let_def case_prod_unfold with_daily_def o_def)
  also have "\<dots> = map astype_int (fillna 0 (diff cf (map cases sel)))"
    by (rule map_snd_zip3) (simp_all add: length_fillna length_diff)
  finally show ?thesis .
qed

lemma map_daily_deaths_add_daily:
  "map daily_deaths (add_daily_columns cf df sel) =
   map astype_int (fillna 0 (diff df (map deaths sel)))"
proof -
  have "map daily_deaths (add_daily_columns cf df sel) =
    map (\<lambda>(r, a, b). b) (zip sel
      (zip (map astype_int (fillna 0 (diff cf (map cases sel))))
           (map astype_int (fillna 0 (diff df (map deaths sel))))))"
    by (simp add: add_daily_columns_def Let_def case_prod_unfold with_daily_def o_def)
  also have "\<dots> = map astype_int (fillna 0 (diff df (map deaths sel)))"
    by (rule map_thd_zip3) (simp_all add: length_fillna length_diff)
  finally show ?thesis .
qed

lemma map_column_add_daily:
  "map date (add_daily_columns cf df sel) = map date sel"
  "map cases (add_daily_columns cf df sel) = map cases sel"
  "map deaths (add_daily_columns cf df sel) = map deaths sel"
proof -
  have "map (date \<circ> original_columns) (add_daily_columns cf df sel) = map date sel"
    by (simp only: map_map [symmetric] map_original_columns_add_daily)
  then show "map date (add_daily_columns cf df sel) = map date sel"
    by (simp add: o_def original_columns_fields)
  have "map (cases \<circ> original_columns) (add_daily_columns cf df sel) = map cases sel"
    by (simp only: map_map [symmetric] map_original_columns_add_daily)
  then show "map cases (add_daily_columns cf df sel) = map cases sel"
    by (simp add: o_def original_columns_fields)
  have "map (deaths \<circ> original_columns) (add_daily_columns cf df sel) = map deaths sel"
    by (simp only: map_map [symmetric] map_original_columns_add_daily)
  then show "map deaths (add_daily_columns cf df sel) = map deaths sel"
    by (simp add: o_def original_columns_fields)
qed

lemma add_daily_columns_Nil: "add_daily_columns cf df [] = []"
  by (simp add: add_daily_columns_def)

lemma add_daily_columns_Cons:
  "\<exists>rs. add_daily_columns cf df (r # sel) = with_daily r 0 0 # rs"
  by (simp add: add_daily_columns_def fillna_def astype_int_zero)

lemma map_original_columns_ldf: "map original_columns (ldf us s c) = locality_rows us s c"
  by (simp add: ldf_def map_original_columns_add_daily)

lemma ldf_locality:
  assumes "r \<in> set (ldf us s c)"
  shows "state r = s \<and> county r = c"
proof -
  from assms have "original_columns r \<in> set (map original_columns (ldf us s c))"
    by simp
  then have "original_columns r \<in> set (locality_rows us s c)"
    by (simp only: map_original_columns_ldf)
  then show ?thesis
    by (simp add: locality_rows_def original_columns_fields)
qed

subsection \<open>Accumulating the differences\<close>

lemma exact_differences_Cons:
  assumes "exact_differences (Some a # x # xs)"
  obtains b where "x = Some b" and "\<bar>b - a\<bar> \<le> 2 ^ 53" and "exact_differences (Some b # xs)"
  using assms by (cases x) auto

lemma exact_differences_first:
  assumes "exact_differences (x # xs)"
  obtains a where "x = Some a"
  using assms by (cases xs; cases x) auto

lemma accumulate_exact:
  "exact_differences (Some a # xs) \<Longrightarrow>
   map Some (accumulate a (map astype_int (fillna 0 (diff_from is_float (Some a) xs)))) = xs"
proof (induction xs arbitrary: a)
  case Nil
  then show ?case by (simp add: fillna_def)
next
  case (Cons x xs)
  from Cons.prems obtain b where b: "x = Some b" "\<bar>b - a\<bar> \<le> 2 ^ 53"
    and rest: "exact_differences (Some b # xs)"
    by (rule exact_differences_Cons)
  have step: "diff_cell is_float (Some a) (Some b) = Some (b - a)" "astype_int (b - a) = b - a"
    using b(2) by (rule diff_cell_exact)+
  have "map Some (accumulate b (map astype_int (fillna 0 (diff_from is_float (Some b) xs)))) = xs"
    using rest by (rule Cons.IH)
  then show ?case
    using step by (simp add: b(1) fillna_def)
qed

lemma accumulate_column:
  assumes "exact_differences (map col sel)"
    and "map cum g = map col sel"
    and "map daily g = map astype_int (fillna 0 (diff is_float (map col sel)))"
  shows "accumulate_from_first cum daily g = map col sel"
proof (cases sel)
  case Nil
  with assms(2) show ?thesis
    by (simp add: accumulate_from_first_def)
next
  case (Cons r rs)
  from assms(1) obtain a where a: "col r = Some a"
    unfolding Cons by (auto elim: exact_differences_first)
  from assms(2) obtain r' g' where g: "g = r' # g'" and c: "cum r' = Some a"
    unfolding Cons by (cases g) (auto simp: a)
  have "map daily g = 0 # map astype_int (fillna 0 (diff_from is_float (Some a) (map col rs)))"
    by (simp add: assms(3) Cons a fillna_def astype_int_zero)
  then have "accumulate_from_first cum daily g =
      Some a # map Some (accumulate a
        (map astype_int (fillna 0 (diff_from is_float (Some a) (map col rs)))))"
    by (simp add: accumulate_from_first_def g c)
  also have "\<dots> = Some a # map col rs"
    using assms(1) unfolding Cons by (simp add: a accumulate_exact)
  finally show ?thesis
    by (simp add: Cons a)
qed

subsection \<open>The groups of the output table\<close>

lemma filter_concat_groups:
  assumes "distinct ks" and "\<And>k x. k \<in> set ks \<Longrightarrow> x \<in> set (F k) \<Longrightarrow> g x = k"
  shows "filter (\<lambda>x. g x = k) (concat (map F ks)) = (if k \<in> set ks then F k else [])"
  using assms
proof (induction ks)
  case Nil
  then show ?case by simp
next
  case (Cons a ks)
  have own: "filter (\<lambda>x. g x = a) (F a) = F a"
    using Cons.prems(2) [of a] by (simp add: filter_id_conv)
  have other: "filter (\<lambda>x. g x = k) (F a) = []" if "k \<noteq> a"
    using Cons.prems(2) [of a] that by (auto simp: filter_empty_conv)
  have rest: "filter (\<lambda>x. g x = k) (concat (map F ks)) = (if k \<in> set ks then F k else [])"
    using Cons.IH Cons.prems by simp
  show ?case
  proof (cases "k = a")
    case True
    with Cons.prems(1) have "k \<notin> set ks" by simp
    with True own rest show ?thesis by simp
  next
    case False
    with other rest show ?thesis by simp
  qed
qed

lemma distinct_groups_keys: "distinct (groups_keys us)"
  by (simp add: groups_keys_def)

lemma set_groups_keys: "set (groups_keys us) = (\<lambda>r. (state r, county r)) ` set us"
  by (simp add: groups_keys_def)

lemma locality_rows_absent: "(s, c) \<notin> set (groups_keys us) \<Longrightarrow> locality_rows us s c = []"
  by (auto simp: set_groups_keys locality_rows_def filter_empty_conv)

lemma ldf_absent: "(s, c) \<notin> set (groups_keys us) \<Longrightarrow> ldf us s c = []"
  by (simp add: ldf_def locality_rows_absent add_daily_columns_Nil)

lemma group_of_concat: "locality_group (concat (local_dfs us)) s c = ldf us s c"
proof -
  have "filter (\<lambda>r. (state r, county r) = (s, c))
          (concat (map (\<lambda>(s, c). ldf us s c) (groups_keys us)))
      = (if (s, c) \<in> set (groups_keys us) then (\<lambda>(s, c). ldf us s c) (s, c) else [])"
    by (rule filter_concat_groups) (auto simp: distinct_groups_keys dest: ldf_locality)
  then show ?thesis
    by (simp add: locality_group_def local_dfs_def ldf_absent)
qed

lemma local_dfs_empty: "local_dfs us = [] \<longleftrightarrow> us = []"
proof -
  have "set (groups_keys us) = {} \<longleftrightarrow> us = []"
    by (simp add: set_groups_keys)
  then show ?thesis
    by (simp add: local_dfs_def)
qed

lemma full_df_empty: "full_df [] = Inl ValueError"
  by (simp add: full_df_def concat_frames_def local_dfs_empty)

lemma full_df_nonempty:
  "us \<noteq> [] \<Longrightarrow> full_df us = Inr (sort_key sort_columns (concat (local_dfs us)))"
  by (simp add: full_df_def concat_frames_def local_dfs_empty)

lemma full_df_Inr:
  assumes "full_df us = Inr out"
  shows "us \<noteq> []" and "out = sort_key sort_columns (concat (local_dfs us))"
proof -
  show "us \<noteq> []"
    using assms full_df_empty by auto
  then show "out = sort_key sort_columns (concat (local_dfs us))"
    using assms by (simp add: full_df_nonempty)
qed

lemma group_of_full_df:
  assumes "full_df us = Inr out"
  shows "locality_group out s c = sort_key sort_columns (ldf us s c)"
  using group_of_concat [of us s c]
  by (simp add: full_df_Inr(2) [OF assms] locality_group_def filter_sort)

lemma insort_key_cong_le:
  "(\<And>y. y \<in> set ys \<Longrightarrow> f x \<le> f y \<longleftrightarrow> g x \<le> g y) \<Longrightarrow> insort_key f x ys = insort_key g x ys"
  by (induction ys) simp_all

lemma sort_key_cong_le:
  "(\<And>x y. x \<in> set xs \<Longrightarrow> y \<in> set xs \<Longrightarrow> f x \<le> f y \<longleftrightarrow> g x \<le> g y) \<Longrightarrow>
   sort_key f xs = sort_key g xs"
proof (induction xs)
  case Nil
  then show ?case by simp
next
  case (Cons x xs)
  have "sort_key f xs = sort_key g xs"
    using Cons by simp
  moreover have "insort_key f x (sort_key g xs) = insort_key g x (sort_key g xs)"
    by (rule insort_key_cong_le) (simp add: Cons.prems)
  ultimately show ?case by simp
qed

lemma sort_columns_le_same_locality:
  "state x = state y \<Longrightarrow> county x = county y \<Longrightarrow>
   sort_columns x \<le> sort_columns y \<longleftrightarrow> date x \<le> date y"
  by (auto simp: sort_columns_def)

lemma sort_ldf_by_date: "sort_key sort_columns (ldf us s c) = sort_key date (ldf us s c)"
  by (rule sort_key_cong_le) (simp add: sort_columns_le_same_locality ldf_locality)

lemma group_of_full_df_by_date:
  "full_df us = Inr out \<Longrightarrow> locality_group out s c = sort_key date (ldf us s c)"
  by (simp add: group_of_full_df sort_ldf_by_date)

lemma group_of_full_df_sorted:
  assumes "full_df us = Inr out" and "sorted (map date (locality_rows us s c))"
  shows "locality_group out s c = ldf us s c"
  using assms
  by (simp add: group_of_full_df_by_date sort_key_id_if_sorted ldf_def map_column_add_daily)

subsection \<open>The output table without its daily columns\<close>

lemma map_insort_key:
  "map f (insort_key (\<lambda>x. k (f x)) x xs) = insort_key k (f x) (map f xs)"
  by (induction xs) simp_all

lemma map_sort_key: "map f (sort_key (\<lambda>x. k (f x)) xs) = sort_key k (map f xs)"
  by (induction xs) (simp_all add: map_insort_key)

lemma sort_columns_original_columns: "sort_columns (original_columns r) = sort_columns r"
  by (simp add: sort_columns_def original_columns_fields)

lemma map_original_columns_full_df:
  assumes "full_df us = Inr out"
  shows "map original_columns out =
   sort_key sort_columns (concat (map (\<lambda>(s, c). locality_rows us s c) (groups_keys us)))"
proof -
  have "map original_columns out =
      map original_columns
        (sort_key (\<lambda>r. sort_columns (original_columns r)) (concat (local_dfs us)))"
    by (simp add: full_df_Inr(2) [OF assms] sort_columns_original_columns)
  also have "\<dots> = sort_key sort_columns (map original_columns (concat (local_dfs us)))"
    by (rule map_sort_key)
  also have "map original_columns (concat (local_dfs us)) =
      concat (map (\<lambda>(s, c). locality_rows us s c) (groups_keys us))"
    by (simp add: local_dfs_def map_concat o_def case_prod_unfold map_original_columns_ldf)
  finally show ?thesis .
qed

lemma mset_filter_split:
  "a \<notin> set ks \<Longrightarrow>
   mset (filter (\<lambda>x. g x = a) xs) + mset (filter (\<lambda>x. g x \<in> set ks) xs) =
   mset (filter (\<lambda>x. g x = a \<or> g x \<in> set ks) xs)"
  by (induction xs) auto

lemma mset_concat_groups:
  "distinct ks \<Longrightarrow>
   mset (concat (map (\<lambda>k. filter (\<lambda>x. g x = k) xs) ks)) = mset (filter (\<lambda>x. g x \<in> set ks) xs)"
proof (induction ks)
  case Nil
  then show ?case by simp
next
  case (Cons a ks)
  then have "mset (concat (map (\<lambda>k. filter (\<lambda>x. g x = k) xs) (a # ks))) =
      mset (filter (\<lambda>x. g x = a) xs) + mset (filter (\<lambda>x. g x \<in> set ks) xs)"
    by simp
  also have "\<dots> = mset (filter (\<lambda>x. g x = a \<or> g x \<in> set ks) xs)"
    using Cons.prems by (intro mset_filter_split) simp
  finally show ?case by simp
qed

lemma locality_rows_as_key:
  "(\<lambda>(s, c). locality_rows us s c) = (\<lambda>k. filter (\<lambda>r. (state r, county r) = k) us)"
  by (auto simp: locality_rows_def fun_eq_iff)

lemma mset_concat_locality_rows:
  "mset (concat (map (\<lambda>(s, c). locality_rows us s c) (groups_keys us))) = mset us"
proof -
  have "mset (concat (map (\<lambda>k. filter (\<lambda>r. (state r, county r) = k) us) (groups_keys us))) =
      mset (filter (\<lambda>r. (state r, county r) \<in> set (groups_keys us)) us)"
    by (rule mset_concat_groups) (rule distinct_groups_keys)
  also have "filter (\<lambda>r. (state r, county r) \<in> set (groups_keys us)) us = us"
    by (simp add: filter_id_conv set_groups_keys)
  finally show ?thesis
    by (simp only: locality_rows_as_key)
qed

lemma group_of_concat_locality_rows:
  "filter (\<lambda>r. (state r, county r) = (s, c))
     (concat (map (\<lambda>(s, c). locality_rows us s c) (groups_keys us))) = locality_rows us s c"
proof -
  have "filter (\<lambda>r. (state r, county r) = (s, c))
          (concat (map (\<lambda>(s, c). locality_rows us s c) (groups_keys us)))
      = (if (s, c) \<in> set (groups_keys us) then (\<lambda>(s, c). locality_rows us s c) (s, c) else [])"
    by (rule filter_concat_groups) (auto simp: distinct_groups_keys locality_rows_def)
  then show ?thesis
    by (simp add: locality_rows_absent)
qed

lemma same_sort_columns_concat:
  "filter (\<lambda>r. sort_columns k = sort_columns r)
     (concat (map (\<lambda>(s, c). locality_rows us s c) (groups_keys us))) =
   filter (\<lambda>r. sort_columns k = sort_columns r) us"
proof -
  let ?L = "concat (map (\<lambda>(s, c). locality_rows us s c) (groups_keys us))"
  have split: "(\<lambda>r::case_record. sort_columns k = sort_columns r) =
      (\<lambda>r. (state r, county r) = (state k, county k) \<and> date r = date k)"
    by (auto simp: sort_columns_def fun_eq_iff)
  have "filter (\<lambda>r. sort_columns k = sort_columns r) ?L =
      filter (\<lambda>r. date r = date k) (filter (\<lambda>r. (state r, county r) = (state k, county k)) ?L)"
    by (simp only: split filter_filter)
  also have "\<dots> = filter (\<lambda>r. date r = date k) (locality_rows us (state k) (county k))"
    by (simp only: group_of_concat_locality_rows)
  also have "\<dots> = filter (\<lambda>r. sort_columns k = sort_columns r) us"
    by (simp add: split locality_rows_def)
  finally show ?thesis .
qed

lemma sort_concat_locality_rows:
  "sort_key sort_columns (concat (map (\<lambda>(s, c). locality_rows us s c) (groups_keys us))) =
   sort_key sort_columns us"
proof -
  let ?L = "concat (map (\<lambda>(s, c). locality_rows us s c) (groups_keys us))"
  have "sort_key sort_columns us = sort_key sort_columns ?L"
  proof (rule properties_for_sort_key)
    show "mset (sort_key sort_columns ?L) = mset us"
      by (simp add: mset_concat_locality_rows)
    show "sorted (map sort_columns (sort_key sort_columns ?L))"
      by simp
    fix k :: case_record
    have "filter (\<lambda>r. sort_columns r = sort_columns k) (sort_key sort_columns ?L) =
        filter (\<lambda>r. sort_columns r = sort_columns k) ?L"
      by (rule sort_key_stable)
    then have "filter (\<lambda>r. sort_columns k = sort_columns r) (sort_key sort_columns ?L) =
        filter (\<lambda>r. sort_columns k = sort_columns r) ?L"
      by (simp add: eq_commute [of "sort_columns k"])
    then show "filter (\<lambda>r. sort_columns k = sort_columns r) (sort_key sort_columns ?L) =
        filter (\<lambda>r. sort_columns k = sort_columns r) us"
      by (simp only: same_sort_columns_concat)
  qed
  then show ?thesis by simp
qed

lemma sorted_full_df:
  assumes "full_df us = Inr out"
  shows "sorted (map sort_columns out)"
  by (simp add: full_df_Inr(2) [OF assms])

lemma ldf_spec_eq_ldf:
  "sorted (map date (locality_rows us s c)) \<Longrightarrow> ldf_spec us s c = ldf us s c"
  by (simp add: ldf_spec_def ldf_def sort_key_id_if_sorted)

subsection \<open>The example tables\<close>

lemmas transform_defs =
  full_df_def concat_frames_def local_dfs_def groups_keys_def ldf_def locality_rows_def
  add_daily_columns_def fillna_def float_dtype_def diff_cell_def sort_columns_def
  int64_def astype_int_def float64_exact

lemma full_df_dated_table: "full_df dated_table = Inr dated_full"
  by (simp add: dated_table_def dated_full_def transform_defs with_daily_def fairfax_def kent_def)

lemma full_df_unordered_table: "full_df unordered_table = Inr unordered_full"
  by (simp add: unordered_table_def unordered_full_def transform_defs with_daily_def fairfax_def)

lemma full_df_shuffled_table: "full_df shuffled_table = Inr shuffled_full"
  by (simp add: shuffled_table_def shuffled_full_def transform_defs with_daily_def fairfax_def)

lemma full_df_gap_table: "full_df gap_table = Inr gap_full"
  by (simp add: gap_table_def gap_full_def transform_defs with_daily_def fairfax_def)

lemma full_df_huge_table: "full_df huge_table = Inr huge_full"
  by (simp add: huge_table_def huge_full_def transform_defs float64_huge with_daily_def fairfax_def)

lemma locality_rows_dated_table:
  "locality_rows dated_table ''Virginia'' ''Fairfax'' = [fairfax 1 10 0, fairfax 2 15 1, fairfax 3 20 1]"
  "locality_rows dated_table ''Delaware'' ''Kent'' = [kent 1 2 0, kent 2 2 0]"
  by (simp_all add: dated_table_def locality_rows_def fairfax_def kent_def)

lemma locality_group_dated_full:
  "locality_group dated_full ''Virginia'' ''Fairfax'' =
     [with_daily (fairfax 1 10 0) 0 0, with_daily (fairfax 2 15 1) 5 1,
      with_daily (fairfax 3 20 1) 5 0]"
  by (simp add: dated_full_def locality_group_def with_daily_def fairfax_def kent_def)

section \<open>The claims about the delta transform\<close>

text \<open>
  C1, as amended. For every locality group whose records appear in the input table in
  non-decreasing order of their dates, and whose cumulative cases (deaths) are all
  present and change by at most \<open>2^53\<close> from one record to the next, accumulating the
  daily cases (daily deaths) of the group in the output table, from the group's first
  row and starting from the cumulative value of that row, gives back the cumulative
  cases (deaths) column of the group, which is the column the group has in the input
  table.
\<close>

theorem cumulative_reconstruction:
  assumes "us \<noteq> []"
    and "sorted (map date (locality_rows us s c))"
  shows "\<exists>out. full_df us = Inr out
       \<and> (exact_differences (map cases (locality_rows us s c)) \<longrightarrow>
            accumulate_from_first cases daily_cases (locality_group out s c)
              = map cases (locality_group out s c))
       \<and> (exact_differences (map deaths (locality_rows us s c)) \<longrightarrow>
            accumulate_from_first deaths daily_deaths (locality_group out s c)
              = map deaths (locality_group out s c))
       \<and> map cases (locality_group out s c) = map cases (locality_rows us s c)
       \<and> map deaths (locality_group out s c) = map deaths (locality_rows us s c)"
proof -
  let ?sel = "locality_rows us s c"
  obtain out where out: "full_df us = Inr out"
    using full_df_nonempty [OF assms(1)] by blast
  have g: "locality_group out s c = ldf us s c"
    using out assms(2) by (rule group_of_full_df_sorted)
  have c: "map cases (ldf us s c) = map cases ?sel"
    and d: "map deaths (ldf us s c) = map deaths ?sel"
    by (simp_all add: ldf_def map_column_add_daily)
  have "accumulate_from_first cases daily_cases (ldf us s c) = map cases ?sel"
    if "exact_differences (map cases ?sel)"
    using that c by (rule accumulate_column) (simp add: ldf_def map_daily_cases_add_daily)
  moreover have "accumulate_from_first deaths daily_deaths (ldf us s c) = map deaths ?sel"
    if "exact_differences (map deaths ?sel)"
    using that d by (rule accumulate_column) (simp add: ldf_def map_daily_deaths_add_daily)
  ultimately show ?thesis
    using out by (simp add: g c d)
qed

theorem cumulative_reconstruction_witness:
  "dated_table \<noteq> []
   \<and> sorted (map date (locality_rows dated_table ''Virginia'' ''Fairfax''))
   \<and> exact_differences (map cases (locality_rows dated_table ''Virginia'' ''Fairfax''))
   \<and> exact_differences (map deaths (locality_rows dated_table ''Virginia'' ''Fairfax''))
   \<and> full_df dated_table = Inr dated_full
   \<and> accumulate_from_first cases daily_cases
       (locality_group dated_full ''Virginia'' ''Fairfax'') = [Some 10, Some 15, Some 20]
   \<and> accumulate_from_first deaths daily_deaths
       (locality_group dated_full ''Virginia'' ''Fairfax'') = [Some 0, Some 1, Some 1]"
proof -
  have n: "dated_table \<noteq> []"
    by (simp add: dated_table_def)
  have s: "sorted (map date (locality_rows dated_table ''Virginia'' ''Fairfax''))"
    by (simp add: locality_rows_dated_table fairfax_def)
  have ec: "exact_differences (map cases (locality_rows dated_table ''Virginia'' ''Fairfax''))"
    and ed: "exact_differences (map deaths (locality_rows dated_table ''Virginia'' ''Fairfax''))"
    by (simp_all add: locality_rows_dated_table fairfax_def)
  have "accumulate_from_first cases daily_cases
        (locality_group dated_full ''Virginia'' ''Fairfax'')
      = map cases (locality_rows dated_table ''Virginia'' ''Fairfax'')
    \<and> accumulate_from_first deaths daily_deaths
        (locality_group dated_full ''Virginia'' ''Fairfax'')
      = map deaths (locality_rows dated_table ''Virginia'' ''Fairfax'')"
    using cumulative_reconstruction [OF n s] ec ed
    by (auto simp: full_df_dated_table)
  then show ?thesis
    using n s ec ed by (simp add: full_df_dated_table locality_rows_dated_table fairfax_def)
qed

text \<open>
  C1 as it is stated fails in three ways. On a table in which a locality's later day
  comes first, the differences are taken in the order of the input, the output is in the
  order of the dates, and accumulating from the first date gives 5, 5 where the
  cumulative cases are 10, 15. On a table in date order with a missing deaths cell, the
  differences next to that cell are NaN and are filled with 0, and accumulating gives
  1, 1, 1 where the cumulative deaths are 1, NaN, 3. On a table in date order whose cases
  grow by \<open>2^53 + 1\<close>, the difference is rounded to \<open>2^53\<close>.
\<close>

theorem cumulative_reconstruction_counterexample:
  "full_df unordered_table = Inr unordered_full
   \<and> accumulate_from_first cases daily_cases
       (locality_group unordered_full ''Virginia'' ''Fairfax'') = [Some 5, Some 5]
   \<and> map cases (locality_group unordered_full ''Virginia'' ''Fairfax'') = [Some 10, Some 15]
   \<and> full_df gap_table = Inr gap_full
   \<and> sorted (map date (locality_rows gap_table ''Virginia'' ''Fairfax''))
   \<and> accumulate_from_first deaths daily_deaths
       (locality_group gap_full ''Virginia'' ''Fairfax'') = [Some 1, Some 1, Some 1]
   \<and> map deaths (locality_group gap_full ''Virginia'' ''Fairfax'') = [Some 1, None, Some 3]
   \<and> full_df huge_table = Inr huge_full
   \<and> sorted (map date (locality_rows huge_table ''Virginia'' ''Fairfax''))
   \<and> accumulate_from_first cases daily_cases
       (locality_group huge_full ''Virginia'' ''Fairfax'') = [Some 0, Some 9007199254740992]
   \<and> map cases (locality_group huge_full ''Virginia'' ''Fairfax'')
       = [Some 0, Some 9007199254740993]"
  by (simp add: full_df_unordered_table full_df_gap_table full_df_huge_table)
    (simp add: unordered_full_def gap_full_def huge_full_def gap_table_def huge_table_def
      locality_group_def locality_rows_def accumulate_from_first_def with_daily_def fairfax_def)

text \<open>
  C2, as amended. For each (state, county) pair the transform takes the discrete
  difference of the cumulative cases and deaths over the group's records in the order in
  which they appear in the input table; it does not sort the group by date first. The
  group's rows then stand in the output in date order (rows of one date in input order).
  The result is that of sorting each group by date before taking the differences
  whenever every group's records already appear in non-decreasing date order in the
  input. The output table is sorted by (date, state, county); a table without records
  has no output, the concatenation raising.
\<close>

theorem delta_transform_order:
  "(us = [] \<longrightarrow> full_df us = Inl ValueError)
   \<and> (us \<noteq> [] \<longrightarrow>
        (\<exists>out. full_df us = Inr out
           \<and> sorted (map sort_columns out)
           \<and> locality_group out s c = sort_key date (ldf us s c)))
   \<and> map original_columns (ldf us s c) = locality_rows us s c
   \<and> map daily_cases (ldf us s c)
       = map astype_int (fillna 0
           (diff (float_dtype (map cases us)) (map cases (locality_rows us s c))))
   \<and> map daily_deaths (ldf us s c)
       = map astype_int (fillna 0
           (diff (float_dtype (map deaths us)) (map deaths (locality_rows us s c))))
   \<and> ((\<forall>k \<in> set (groups_keys us). sorted (map date (locality_rows us (fst k) (snd k))))
        \<longrightarrow> full_df us = full_df_spec us)"
proof -
  have spec: "full_df us = full_df_spec us"
    if "\<forall>k \<in> set (groups_keys us). sorted (map date (locality_rows us (fst k) (snd k)))"
  proof -
    have "map (\<lambda>(s, c). ldf_spec us s c) (groups_keys us) =
        map (\<lambda>(s, c). ldf us s c) (groups_keys us)"
      by (rule map_cong) (use that in \<open>auto simp: ldf_spec_eq_ldf\<close>)
    then show ?thesis
      by (simp only: full_df_def full_df_spec_def local_dfs_def)
  qed
  have out: "\<exists>out. full_df us = Inr out \<and> sorted (map sort_columns out)
      \<and> locality_group out s c = sort_key date (ldf us s c)" if ne: "us \<noteq> []"
  proof -
    obtain out where o: "full_df us = Inr out"
      using full_df_nonempty [OF ne] by blast
    then show ?thesis
      using sorted_full_df [OF o] group_of_full_df_by_date [OF o] by blast
  qed
  show ?thesis
    using spec out
    by (simp add: full_df_empty ldf_def map_original_columns_add_daily
        map_daily_cases_add_daily map_daily_deaths_add_daily)
qed

theorem delta_transform_order_witness:
  "dated_table \<noteq> []
   \<and> groups_keys dated_table = [(''Delaware'', ''Kent''), (''Virginia'', ''Fairfax'')]
   \<and> sorted (map date (locality_rows dated_table ''Delaware'' ''Kent''))
   \<and> sorted (map date (locality_rows dated_table ''Virginia'' ''Fairfax''))
   \<and> full_df dated_table = full_df_spec dated_table
   \<and> full_df dated_table = Inr dated_full
   \<and> sorted (map sort_columns dated_full)
   \<and> map daily_cases (locality_group dated_full ''Virginia'' ''Fairfax'') = [0, 5, 5]"
proof -
  have n: "dated_table \<noteq> []"
    by (simp add: dated_table_def)
  have k: "groups_keys dated_table = [(''Delaware'', ''Kent''), (''Virginia'', ''Fairfax'')]"
    by (simp add: groups_keys_def dated_table_def fairfax_def kent_def)
  have s1: "sorted (map date (locality_rows dated_table ''Delaware'' ''Kent''))"
    and s2: "sorted (map date (locality_rows dated_table ''Virginia'' ''Fairfax''))"
    by (simp_all add: locality_rows_dated_table fairfax_def kent_def)
  have h: "\<forall>k \<in> set (groups_keys dated_table).
      sorted (map date (locality_rows dated_table (fst k) (snd k)))"
    using s1 s2 by (simp add: k)
  note t = delta_transform_order [of dated_table "''Virginia''" "''Fairfax''"]
  have "full_df dated_table = full_df_spec dated_table"
    using t h by blast
  moreover have "sorted (map sort_columns dated_full)"
    using t n by (auto simp: full_df_dated_table)
  moreover have "map daily_cases (locality_group dated_full ''Virginia'' ''Fairfax'') = [0, 5, 5]"
    by (simp add: locality_group_dated_full with_daily_def)
  ultimately show ?thesis
    using n k s1 s2 full_df_dated_table by blast
qed

text \<open>
  C2 as it is stated fails: on the table whose later day comes first the transform gives
  the daily cases -5, 0, and sorting the group by date first would give 0, 5.
\<close>

theorem delta_transform_order_counterexample:
  "full_df unordered_table = Inr unordered_full
   \<and> map daily_cases unordered_full = [- 5, 0]
   \<and> full_df_spec unordered_table
       = Inr [with_daily (fairfax 1 10 0) 0 0, with_daily (fairfax 2 15 1) 5 1]
   \<and> full_df unordered_table \<noteq> full_df_spec unordered_table"
proof -
  have b: "full_df_spec unordered_table =
      Inr [with_daily (fairfax 1 10 0) 0 0, with_daily (fairfax 2 15 1) 5 1]"
    by (simp add: unordered_table_def full_df_spec_def ldf_spec_def transform_defs
        with_daily_def fairfax_def)
  show ?thesis
    by (simp add: full_df_unordered_table b) (simp add: unordered_full_def with_daily_def)
qed

text \<open>
  C3, as amended. A locality whose records appear in the input in date order, on three
  consecutive days with the cumulative cases 10, 15, 20, has the daily cases 0, 5, 5 in
  the output of the transform, whatever else the table holds.
\<close>

theorem three_days_example:
  assumes "map date (locality_rows us s c) = [d, d + 1, d + 2]"
    and "map cases (locality_rows us s c) = [Some 10, Some 15, Some 20]"
  shows "\<exists>out. full_df us = Inr out
           \<and> map daily_cases (locality_group out s c) = [0, 5, 5]"
proof -
  have "locality_rows us s c \<noteq> []"
    using assms(1) by auto
  then have "us \<noteq> []"
    by (auto simp: locality_rows_def)
  then obtain out where out: "full_df us = Inr out"
    using full_df_nonempty by blast
  have "sorted (map date (locality_rows us s c))"
    by (simp add: assms(1))
  with out have "locality_group out s c = ldf us s c"
    by (rule group_of_full_df_sorted)
  then have "map daily_cases (locality_group out s c) = [0, 5, 5]"
    by (simp add: ldf_def map_daily_cases_add_daily assms(2) fillna_def diff_cell_def
        int64_def float64_exact astype_int_def)
  with out show ?thesis by auto
qed

theorem three_days_example_witness:
  "map date (locality_rows dated_table ''Virginia'' ''Fairfax'') = [1, 1 + 1, 1 + 2]
   \<and> map cases (locality_rows dated_table ''Virginia'' ''Fairfax'')
       = [Some 10, Some 15, Some 20]
   \<and> full_df dated_table = Inr dated_full
   \<and> map daily_cases (locality_group dated_full ''Virginia'' ''Fairfax'') = [0, 5, 5]"
proof -
  have a: "map date (locality_rows dated_table ''Virginia'' ''Fairfax'') = [1, 1 + 1, 1 + 2]"
    and b: "map cases (locality_rows dated_table ''Virginia'' ''Fairfax'')
      = [Some 10, Some 15, Some 20]"
    by (simp_all add: locality_rows_dated_table fairfax_def)
  have "map daily_cases (locality_group dated_full ''Virginia'' ''Fairfax'') = [0, 5, 5]"
    using three_days_example [OF a b] by (auto simp: full_df_dated_table)
  then show ?thesis
    using a b full_df_dated_table by blast
qed

text \<open>
  C3 as it is stated fails when the three days do not stand in date order in the file:
  with the cumulative cases 10, 15, 20 on the days 1, 2, 3 and the second day listed
  first, the daily cases of the three days are -5, 0, 10.
\<close>

theorem three_days_example_counterexample:
  "full_df shuffled_table = Inr shuffled_full
   \<and> map date (locality_group shuffled_full ''Virginia'' ''Fairfax'') = [1, 2, 3]
   \<and> map cases (locality_group shuffled_full ''Virginia'' ''Fairfax'')
       = [Some 10, Some 15, Some 20]
   \<and> map daily_cases (locality_group shuffled_full ''Virginia'' ''Fairfax'') = [- 5, 0, 10]"
  by (simp add: full_df_shuffled_table)
    (simp add: shuffled_full_def locality_group_def with_daily_def fairfax_def)

text \<open>
  C4, as amended. For every locality group whose first record in the input table
  carries the earliest date of the group (as it does when the group's records are in date
  order), the first row of the group in the output of the transform is that record, with
  daily cases zero and daily deaths zero.
\<close>

theorem first_row_daily_zero:
  assumes "locality_rows us s c = r0 # rest"
    and "\<forall>r \<in> set rest. date r0 \<le> date r"
  shows "\<exists>out r rs. full_df us = Inr out \<and> locality_group out s c = r # rs
           \<and> original_columns r = r0 \<and> daily_cases r = 0 \<and> daily_deaths r = 0"
proof -
  have "us \<noteq> []"
    using assms(1) by (auto simp: locality_rows_def)
  then obtain out where out: "full_df us = Inr out"
    using full_df_nonempty by blast
  let ?cf = "float_dtype (map cases us)" and ?df = "float_dtype (map deaths us)"
  obtain ds where ds: "add_daily_columns ?cf ?df (r0 # rest) = with_daily r0 0 0 # ds"
    using add_daily_columns_Cons by blast
  have "map date (with_daily r0 0 0 # ds) = map date (r0 # rest)"
    using map_column_add_daily(1) [of ?cf ?df "r0 # rest"] by (simp only: ds)
  then have dates: "map date ds = map date rest"
    by simp
  have "\<forall>x \<in> set (sort_key date ds). date (with_daily r0 0 0) \<le> date x"
  proof
    fix x assume "x \<in> set (sort_key date ds)"
    then have "date x \<in> set (map date rest)"
      by (simp add: dates [symmetric])
    then show "date (with_daily r0 0 0) \<le> date x"
      using assms(2) by (auto simp: with_daily_def)
  qed
  then have "sort_key date (with_daily r0 0 0 # ds) = with_daily r0 0 0 # sort_key date ds"
    by (simp add: insort_is_Cons)
  then have "locality_group out s c = with_daily r0 0 0 # sort_key date ds"
    by (simp add: group_of_full_df_by_date [OF out] ldf_def assms(1) ds)
  moreover have "original_columns (with_daily r0 0 0) = r0"
    "daily_cases (with_daily r0 0 0) = 0" "daily_deaths (with_daily r0 0 0) = 0"
    by (simp_all add: original_columns_with_daily) (simp_all add: with_daily_def)
  ultimately show ?thesis
    using out by blast
qed

theorem first_row_daily_zero_witness:
  "locality_rows dated_table ''Virginia'' ''Fairfax''
     = fairfax 1 10 0 # [fairfax 2 15 1, fairfax 3 20 1]
   \<and> date (fairfax 1 10 0) \<le> date (fairfax 2 15 1)
   \<and> date (fairfax 1 10 0) \<le> date (fairfax 3 20 1)
   \<and> full_df dated_table = Inr dated_full
   \<and> (\<exists>r rs. locality_group dated_full ''Virginia'' ''Fairfax'' = r # rs
         \<and> original_columns r = fairfax 1 10 0 \<and> daily_cases r = 0 \<and> daily_deaths r = 0)"
proof -
  have a: "locality_rows dated_table ''Virginia'' ''Fairfax''
      = fairfax 1 10 0 # [fairfax 2 15 1, fairfax 3 20 1]"
    by (simp add: locality_rows_dated_table)
  have b: "\<forall>r \<in> set [fairfax 2 15 1, fairfax 3 20 1]. date (fairfax 1 10 0) \<le> date r"
    by (simp add: fairfax_def)
  have "\<exists>r rs. locality_group dated_full ''Virginia'' ''Fairfax'' = r # rs
      \<and> original_columns r = fairfax 1 10 0 \<and> daily_cases r = 0 \<and> daily_deaths r = 0"
    using first_row_daily_zero [OF a b] by (auto simp: full_df_dated_table)
  then show ?thesis
    using a b full_df_dated_table by simp
qed

text \<open>
  C4 as it is stated fails on the table whose later day comes first: the first row of the
  group in the output is that of the first day, with daily cases -5 and daily deaths -1.
\<close>

theorem first_row_daily_zero_counterexample:
  "full_df unordered_table = Inr unordered_full
   \<and> date (hd (locality_group unordered_full ''Virginia'' ''Fairfax'')) = 1
   \<and> daily_cases (hd (locality_group unordered_full ''Virginia'' ''Fairfax'')) = - 5
   \<and> daily_deaths (hd (locality_group unordered_full ''Virginia'' ''Fairfax'')) = - 1"
  by (simp add: full_df_unordered_table)
    (simp add: unordered_full_def locality_group_def with_daily_def fairfax_def)

text \<open>
  C9. The transform keeps the number of rows, and without the two daily columns its
  output is the input table, stably sorted by (date, state, county): every record keeps
  its date, state, county, fips, cases and deaths. (On a table without records the
  concatenation raises, and there is no output.)
\<close>

theorem delta_transform_frame:
  "(us = [] \<longrightarrow> full_df us = Inl ValueError)
   \<and> (us \<noteq> [] \<longrightarrow>
        (\<exists>out. full_df us = Inr out
           \<and> length out = length us
           \<and> map original_columns out = sort_key sort_columns us
           \<and> mset (map original_columns out) = mset us))"
proof -
  have "\<exists>out. full_df us = Inr out \<and> length out = length us
      \<and> map original_columns out = sort_key sort_columns us
      \<and> mset (map original_columns out) = mset us" if ne: "us \<noteq> []"
  proof -
    obtain out where out: "full_df us = Inr out"
      using full_df_nonempty [OF ne] by blast
    have eq: "map original_columns out = sort_key sort_columns us"
      by (simp only: map_original_columns_full_df [OF out] sort_concat_locality_rows)
    have "length out = length (map original_columns out)"
      by simp
    also have "\<dots> = length us"
      by (simp only: eq length_sort)
    finally have len: "length out = length us" .
    have "mset (map original_columns out) = mset us"
      by (simp only: eq mset_sort)
    with out eq len show ?thesis by blast
  qed
  then show ?thesis
    by (simp add: full_df_empty)
qed

theorem delta_transform_frame_witness:
  "dated_table \<noteq> []
   \<and> full_df dated_table = Inr dated_full
   \<and> length dated_full = 5
   \<and> map original_columns dated_full
       = [kent 1 2 0, fairfax 1 10 0, kent 2 2 0, fairfax 2 15 1, fairfax 3 20 1]"
proof -
  have n: "dated_table \<noteq> []"
    by (simp add: dated_table_def)
  have "sort_key sort_columns dated_table
      = [kent 1 2 0, fairfax 1 10 0, kent 2 2 0, fairfax 2 15 1, fairfax 3 20 1]"
    by (simp add: dated_table_def sort_columns_def fairfax_def kent_def)
  moreover have "length dated_table = 5"
    by (simp add: dated_table_def)
  ultimately show ?thesis
    using n delta_transform_frame [of dated_table] by (auto simp: full_df_dated_table)
qed

section \<open>Properties of the visualisation functions\<close>

lemma map_fst_groupby_date_sum:
  "map fst (groupby_date_sum on_date col df) = sort (remdups (map on_date df))"
  by (simp add: groupby_date_sum_def o_def)

lemma map_fst_local_series:
  "map fst (local_series df col st co) =
   sort (remdups (map date (select_locality df st co)))"
  by (simp add: local_series_def o_def case_prod_unfold groupby_date_sum_def)

lemma distinct_local_series: "distinct (map fst (local_series df col st co))"
  by (simp add: map_fst_local_series)

lemma variance_nonneg:
  fixes m :: real
  shows "0 \<le> sum_list (map (\<lambda>x. (x - m)\<^sup>2) xs) / real (length xs - 1)"
  by (intro divide_nonneg_nonneg sum_list_nonneg) auto

lemma std_nonneg: "std xs = Some sd \<Longrightarrow> 0 \<le> sd"
  using variance_nonneg [of _ xs]
  by (auto simp: std_def split: option.splits if_splits)

lemma length_filter_mono:
  "(\<And>x. x \<in> set xs \<Longrightarrow> P x \<Longrightarrow> Q x) \<Longrightarrow> length (filter P xs) \<le> length (filter Q xs)"
  by (induction xs) auto

lemma set_filter_mono:
  "(\<And>x. x \<in> set xs \<Longrightarrow> P x \<Longrightarrow> Q x) \<Longrightarrow> set (filter P xs) \<subseteq> set (filter Q xs)"
  by auto

lemma anomalies_with_defined:
  "anomalies_with rnd (Some m) (Some sd) rs t =
   filter (\<lambda>(d, x). rnd (t * sd) \<le> \<bar>rnd (x - m)\<bar>) rs"
  by (simp add: anomalies_with_def)

lemma anomalies_with_undefined:
  "m_opt = None \<or> sd_opt = None \<Longrightarrow> anomalies_with rnd m_opt sd_opt rs t = []"
  by (auto simp: anomalies_with_def split: option.splits)

lemma anomalies_of_defined:
  "mean (map snd rs) = Some m \<Longrightarrow> std (map snd rs) = Some sd \<Longrightarrow>
   anomalies_of rs t = filter (\<lambda>(d, x). t * sd \<le> \<bar>x - m\<bar>) rs"
  by (simp add: anomalies_of_def anomalies_with_defined)

lemma anomalies_of_undefined:
  "mean (map snd rs) = None \<or> std (map snd rs) = None \<Longrightarrow> anomalies_of rs t = []"
  by (simp add: anomalies_of_def anomalies_with_undefined)

lemma threshold_mono:
  fixes t1 t2 sd :: real
  assumes "mono rnd" and "t1 \<le> t2" and "0 \<le> sd" and "rnd (t2 * sd) \<le> v"
  shows "rnd (t1 * sd) \<le> v"
proof -
  have "t1 * sd \<le> t2 * sd"
    using assms(2,3) by (rule mult_right_mono)
  then have "rnd (t1 * sd) \<le> rnd (t2 * sd)"
    using assms(1) by (simp add: monoD)
  with assms(4) show ?thesis by simp
qed

lemma anomalies_with_mono:
  assumes "t1 \<le> t2" and "mono rnd" and "\<And>sd. sd_opt = Some sd \<Longrightarrow> 0 \<le> sd"
  shows "set (anomalies_with rnd m_opt sd_opt rs t2) \<subseteq> set (anomalies_with rnd m_opt sd_opt rs t1)"
    and "length (anomalies_with rnd m_opt sd_opt rs t2)
      \<le> length (anomalies_with rnd m_opt sd_opt rs t1)"
proof -
  show "set (anomalies_with rnd m_opt sd_opt rs t2) \<subseteq> set (anomalies_with rnd m_opt sd_opt rs t1)"
  proof (cases "m_opt = None \<or> sd_opt = None")
    case True
    then show ?thesis
      by (simp add: anomalies_with_undefined)
  next
    case False
    then obtain m sd where ms: "m_opt = Some m" "sd_opt = Some sd"
      by auto
    have pos: "0 \<le> sd"
      using ms(2) by (rule assms(3))
    show ?thesis
      unfolding ms anomalies_with_defined
      by (rule set_filter_mono)
        (auto simp: case_prod_unfold intro: threshold_mono [OF assms(2,1) pos])
  qed
  show "length (anomalies_with rnd m_opt sd_opt rs t2)
      \<le> length (anomalies_with rnd m_opt sd_opt rs t1)"
  proof (cases "m_opt = None \<or> sd_opt = None")
    case True
    then show ?thesis
      by (simp add: anomalies_with_undefined)
  next
    case False
    then obtain m sd where ms: "m_opt = Some m" "sd_opt = Some sd"
      by auto
    have pos: "0 \<le> sd"
      using ms(2) by (rule assms(3))
    show ?thesis
      unfolding ms anomalies_with_defined
      by (rule length_filter_mono)
        (auto simp: case_prod_unfold intro: threshold_mono [OF assms(2,1) pos])
  qed
qed

lemma mono_id: "mono (\<lambda>v::real. v)"
  by (simp add: mono_def)

lemma flagged_at_index:
  assumes "distinct (map fst ls)" and "length rs = length ls" and "i < length ls"
  shows "fst (ls ! i) \<in> fst ` set (filter (\<lambda>(d, x). Q x) (zip (map fst ls) rs)) \<longleftrightarrow> Q (rs ! i)"
proof
  assume "fst (ls ! i) \<in> fst ` set (filter (\<lambda>(d, x). Q x) (zip (map fst ls) rs))"
  then obtain x where x: "(fst (ls ! i), x) \<in> set (zip (map fst ls) rs)" and q: "Q x"
    by auto
  from x obtain j where j: "j < length ls" "map fst ls ! j = fst (ls ! i)" "rs ! j = x"
    using assms(2) by (auto simp: set_zip)
  from j(1,2) assms(3) have "map fst ls ! j = map fst ls ! i"
    by simp
  with j(1) assms(3) have "j = i"
    using nth_eq_iff_index_eq [OF assms(1), of j i] by simp
  with j(3) q show "Q (rs ! i)" by simp
next
  assume "Q (rs ! i)"
  moreover have "(fst (ls ! i), rs ! i) \<in> set (zip (map fst ls) rs)"
    using assms(2,3) by (force simp: set_zip)
  ultimately show "fst (ls ! i) \<in> fst ` set (filter (\<lambda>(d, x). Q x) (zip (map fst ls) rs))"
    by force
qed

lemma plot_timeseries_Some:
  assumes "plot_timeseries lib df col st co thr bt ttl = Some fig"
  shows "\<exists>fit. STL lib (local_series df col st co) = Some fit \<and>
     series_trace fig = local_series df col st co \<and>
     anomalies_trace fig =
       filter (\<lambda>(d, y). d \<in> set (map fst
           (anomalies_with (float_round lib) (series_mean lib (resid fit))
              (series_std lib (resid fit))
              (zip (map fst (local_series df col st co)) (resid fit))
              (case thr of None \<Rightarrow> 3 | Some t \<Rightarrow> t))))
         (local_series df col st co)"
  using assms by (auto simp: plot_timeseries_def Let_def split: option.splits)

lemma mean_replicate_zero: "0 < n \<Longrightarrow> mean (replicate n 0) = Some 0"
  by (simp add: mean_def sum_list_replicate)

lemma std_replicate_zero: "2 \<le> n \<Longrightarrow> std (replicate n 0) = Some 0"
  by (simp add: std_def mean_def sum_list_replicate map_replicate)

lemma anomalies_of_zero_resid:
  assumes "2 \<le> length idx"
  shows "anomalies_of (zip idx (replicate (length idx) 0)) t = zip idx (replicate (length idx) 0)"
proof -
  let ?rs = "zip idx (replicate (length idx) (0::real))"
  have v: "map snd ?rs = replicate (length idx) 0"
    by simp
  have pos: "0 < length idx"
    using assms by linarith
  have m: "mean (map snd ?rs) = Some 0"
    by (simp only: v mean_replicate_zero [OF pos])
  have s: "std (map snd ?rs) = Some 0"
    by (simp only: v std_replicate_zero [OF assms])
  have "anomalies_of ?rs t = filter (\<lambda>(d, x). t * 0 \<le> \<bar>x - 0\<bar>) ?rs"
    using m s by (rule anomalies_of_defined)
  then show ?thesis by simp
qed

subsection \<open>The example figures\<close>

lemma full_df_quiet_table: "full_df quiet_table = Inr quiet_full"
  by (simp add: quiet_table_def quiet_full_def transform_defs with_daily_def kent_def)

lemma full_df_wavy_table: "full_df wavy_table = Inr wavy_full"
  by (simp add: wavy_table_def wavy_full_def transform_defs with_daily_def kent_def)

lemma local_series_quiet_full:
  "local_series quiet_full Daily_deaths None None = [(1, 0), (2, 0), (3, 0)]"
  by (simp add: quiet_full_def local_series_def select_locality_def truthy_def
      groupby_date_sum_def with_daily_def kent_def)

lemma local_series_wavy_full:
  "local_series wavy_full Daily_cases None None = [(1, 0), (2, 2), (3, 0), (4, 2), (5, 1)]"
  by (simp add: wavy_full_def local_series_def select_locality_def truthy_def
      groupby_date_sum_def with_daily_def kent_def)

lemma mean_std_three_zeros: "mean [0, 0, 0] = Some 0" "std [0, 0, 0] = Some 0"
  by (simp_all add: std_def mean_def)

lemma mean_std_wavy: "mean [- 1, 1, - 1, 1, 0] = Some 0" "std [- 1, 1, - 1, 1, 0] = Some 1"
  by (simp_all add: std_def mean_def)

lemma anomalies_of_three_zeros:
  "anomalies_of [(1, 0), (2, 0), (3, 0)] t = [(1, 0), (2, 0), (3, 0)]"
  using anomalies_of_zero_resid [of "[1, 2, 3]" t] by (simp add: numeral_3_eq_3)

lemma plot_quiet_full:
  "plot_timeseries (exact_libraries zero_resid_fit) quiet_full Daily_deaths
     None None None None None = Some quiet_figure"
  using anomalies_of_three_zeros [of 3]
  by (simp add: plot_timeseries_def local_series_quiet_full exact_libraries_def
      zero_resid_fit_def anomalies_of_def quiet_figure_def rolling_mean_def
      ROLLING_AVERAGE_DAYS_def upt_rec numeral_3_eq_3 Let_def)

lemma anomalies_wavy:
  "anomalies_with (\<lambda>v. v) (Some 0) (Some 1) [(1, - 1), (2, 1), (3, - 1), (4, 1), (5, 0)] 1
     = [(1, - 1), (2, 1), (3, - 1), (4, 1)]"
  by (simp add: anomalies_with_def)

lemma plot_wavy_full:
  "plot_timeseries (exact_libraries unit_trend_fit) wavy_full Daily_cases
     None None (Some 1) None None = Some wavy_figure"
  by (simp add: plot_timeseries_def local_series_wavy_full exact_libraries_def
      unit_trend_fit_def anomalies_wavy mean_std_wavy wavy_figure_def rolling_mean_def
      ROLLING_AVERAGE_DAYS_def upt_rec Let_def)

section \<open>The claims about the visualisation functions\<close>

text \<open>
  C5, as amended. In the plot, a point of the aggregated series is flagged as an anomaly
  exactly when its decomposition residual deviates from the residual mean by at least
  (not: by more than) the anomaly threshold times the residual standard deviation, the
  threshold being 3 when it is not passed. The mean and the standard deviation are those
  the library reports for the residuals, and nothing is flagged when one of them is NaN.
\<close>

theorem anomaly_rule:
  assumes "STL lib (local_series df col st co) = Some fit"
    and "length (resid fit) = length (local_series df col st co)"
    and "i < length (local_series df col st co)"
  shows "\<exists>fig. plot_timeseries lib df col st co thr bt ttl = Some fig
       \<and> (local_series df col st co ! i \<in> set (anomalies_trace fig) \<longleftrightarrow>
           (\<exists>m sd. series_mean lib (resid fit) = Some m \<and> series_std lib (resid fit) = Some sd \<and>
              \<bar>float_round lib (resid fit ! i - m)\<bar>
                \<ge> float_round lib ((case thr of None \<Rightarrow> 3 | Some t \<Rightarrow> t) * sd)))"
proof -
  let ?ls = "local_series df col st co"
  let ?t = "case thr of None \<Rightarrow> 3 | Some t \<Rightarrow> t"
  let ?rs = "zip (map fst ?ls) (resid fit)"
  let ?rnd = "float_round lib"
  let ?an = "anomalies_with ?rnd (series_mean lib (resid fit)) (series_std lib (resid fit)) ?rs ?t"
  obtain fig where fig: "plot_timeseries lib df col st co thr bt ttl = Some fig"
    using assms(1) by (simp add: plot_timeseries_def Let_def)
  have tr: "anomalies_trace fig = filter (\<lambda>(d, y). d \<in> set (map fst ?an)) ?ls"
    using plot_timeseries_Some [OF fig] assms(1) by auto
  have mem: "?ls ! i \<in> set (anomalies_trace fig) \<longleftrightarrow> fst (?ls ! i) \<in> fst ` set ?an"
    using assms(3) by (auto simp: tr case_prod_unfold)
  have "?ls ! i \<in> set (anomalies_trace fig) \<longleftrightarrow>
      (\<exists>m sd. series_mean lib (resid fit) = Some m \<and> series_std lib (resid fit) = Some sd \<and>
         \<bar>?rnd (resid fit ! i - m)\<bar> \<ge> ?rnd (?t * sd))"
  proof (cases "series_mean lib (resid fit) = None \<or> series_std lib (resid fit) = None")
    case True
    then have "?an = []"
      by (rule anomalies_with_undefined)
    with True mem show ?thesis by auto
  next
    case False
    then obtain m sd where m: "series_mean lib (resid fit) = Some m"
      and sd: "series_std lib (resid fit) = Some sd"
      by auto
    have "?an = filter (\<lambda>(d, x). ?rnd (?t * sd) \<le> \<bar>?rnd (x - m)\<bar>) ?rs"
      by (simp only: m sd anomalies_with_defined)
    moreover have "fst (?ls ! i) \<in> fst ` set (filter (\<lambda>(d, x). ?rnd (?t * sd) \<le> \<bar>?rnd (x - m)\<bar>) ?rs)
        \<longleftrightarrow> ?rnd (?t * sd) \<le> \<bar>?rnd (resid fit ! i - m)\<bar>"
      using distinct_local_series assms(2,3) by (rule flagged_at_index)
    ultimately show ?thesis
      using mem m sd by simp
  qed
  with fig show ?thesis by blast
qed

theorem anomaly_rule_witness:
  "plot_timeseries (exact_libraries unit_trend_fit) wavy_full Daily_cases
       None None (Some 1) None None = Some wavy_figure
   \<and> STL (exact_libraries unit_trend_fit) (local_series wavy_full Daily_cases None None)
       = Some \<lparr>trend = [1, 1, 1, 1, 1], seasonal = [0, 0, 0, 0, 0],
               resid = [- 1, 1, - 1, 1, 0]\<rparr>
   \<and> series_mean (exact_libraries unit_trend_fit) [- 1, 1, - 1, 1, 0] = Some 0
   \<and> series_std (exact_libraries unit_trend_fit) [- 1, 1, - 1, 1, 0] = Some 1
   \<and> (0::nat) < length (local_series wavy_full Daily_cases None None)
   \<and> (4::nat) < length (local_series wavy_full Daily_cases None None)
   \<and> local_series wavy_full Daily_cases None None ! 0 \<in> set (anomalies_trace wavy_figure)
   \<and> local_series wavy_full Daily_cases None None ! 4 \<notin> set (anomalies_trace wavy_figure)"
proof -
  let ?lib = "exact_libraries unit_trend_fit"
  let ?ls = "local_series wavy_full Daily_cases None None"
  let ?fit = "\<lparr>trend = [1, 1, 1, 1, 1], seasonal = [0, 0, 0, 0, 0],
               resid = [- 1, 1, - 1, 1, 0::real]\<rparr>"
  have a: "STL ?lib ?ls = Some ?fit"
    by (simp add: local_series_wavy_full exact_libraries_def unit_trend_fit_def)
  have b: "length (resid ?fit) = length ?ls"
    by (simp add: local_series_wavy_full)
  have c0: "(0::nat) < length ?ls" and c4: "(4::nat) < length ?ls"
    by (simp_all add: local_series_wavy_full)
  have m: "series_mean ?lib [- 1, 1, - 1, 1, 0] = Some 0"
    and s: "series_std ?lib [- 1, 1, - 1, 1, 0] = Some 1"
    by (simp_all add: exact_libraries_def mean_std_wavy)
  have "?ls ! 0 \<in> set (anomalies_trace wavy_figure)"
    using anomaly_rule [OF a b c0, of "Some 1" None None] m s
    by (simp add: plot_wavy_full) (simp add: exact_libraries_def)
  moreover have "?ls ! 4 \<notin> set (anomalies_trace wavy_figure)"
    using anomaly_rule [OF a b c4, of "Some 1" None None] m s
    by (simp add: plot_wavy_full) (simp add: exact_libraries_def)
  ultimately show ?thesis
    using plot_wavy_full a m s c0 c4 by blast
qed

text \<open>
  C5 as it is stated fails on a series of zeros: the residuals are 0, their mean and
  their standard deviation are 0, no residual deviates from the mean by more than 3
  times 0, and the plot flags every point.
\<close>

theorem anomaly_rule_counterexample:
  "full_df quiet_table = Inr quiet_full
   \<and> plot_timeseries (exact_libraries zero_resid_fit) quiet_full Daily_deaths
       None None None None None = Some quiet_figure
   \<and> anomalies_trace quiet_figure = [(1, 0), (2, 0), (3, 0)]
   \<and> anomalies_of [(1, 0), (2, 0), (3, 0)] 3 = [(1, 0), (2, 0), (3, 0)]
   \<and> anomalies_spec [(1, 0), (2, 0), (3, 0)] 3 = []
   \<and> mean [0, 0, 0] = Some 0 \<and> std [0, 0, 0] = Some 0
   \<and> \<not> \<bar>0 - 0\<bar> > 3 * (0::real)"
  by (simp add: full_df_quiet_table plot_quiet_full anomalies_of_three_zeros
      mean_std_three_zeros anomalies_spec_def) (simp add: quiet_figure_def)

text \<open>
  C6. For every residual series and thresholds \<open>t1 \<le> t2\<close>, the points flagged at \<open>t2\<close>
  are among those flagged at \<open>t1\<close>, and they are not more. This holds for the mask with
  the exact statistics, and for the mask with any statistics and rounding, provided that
  the rounding is monotone and the standard deviation is not negative.
\<close>

theorem anomaly_threshold_monotone:
  assumes "t1 \<le> t2"
  shows "set (anomalies_of rs t2) \<subseteq> set (anomalies_of rs t1)
       \<and> length (anomalies_of rs t2) \<le> length (anomalies_of rs t1)
       \<and> (mono rnd \<and> (\<forall>sd. sd_opt = Some sd \<longrightarrow> 0 \<le> sd) \<longrightarrow>
            set (anomalies_with rnd m_opt sd_opt rs t2)
              \<subseteq> set (anomalies_with rnd m_opt sd_opt rs t1)
            \<and> length (anomalies_with rnd m_opt sd_opt rs t2)
              \<le> length (anomalies_with rnd m_opt sd_opt rs t1))"
proof -
  have "set (anomalies_of rs t2) \<subseteq> set (anomalies_of rs t1)"
    unfolding anomalies_of_def
    using assms mono_id by (rule anomalies_with_mono) (rule std_nonneg)
  moreover have "length (anomalies_of rs t2) \<le> length (anomalies_of rs t1)"
    unfolding anomalies_of_def
    using assms mono_id by (rule anomalies_with_mono) (rule std_nonneg)
  moreover have "set (anomalies_with rnd m_opt sd_opt rs t2)
        \<subseteq> set (anomalies_with rnd m_opt sd_opt rs t1)
      \<and> length (anomalies_with rnd m_opt sd_opt rs t2)
        \<le> length (anomalies_with rnd m_opt sd_opt rs t1)"
    if "mono rnd" and "\<forall>sd. sd_opt = Some sd \<longrightarrow> 0 \<le> sd"
    using anomalies_with_mono [OF assms that(1), of sd_opt m_opt rs] that(2) by blast
  ultimately show ?thesis by blast
qed

theorem anomaly_threshold_monotone_witness:
  "(1::real) \<le> 2
   \<and> mono (\<lambda>v::real. v)
   \<and> anomalies_of resid_example 1 = [(1, - 1), (2, 1), (3, - 1), (4, 1)]
   \<and> anomalies_of resid_example 2 = []
   \<and> set (anomalies_of resid_example 2) \<subseteq> set (anomalies_of resid_example 1)
   \<and> length (anomalies_of resid_example 2) \<le> length (anomalies_of resid_example 1)
   \<and> length (anomalies_with (\<lambda>v. v) (Some 0) (Some 1) resid_example 2)
       \<le> length (anomalies_with (\<lambda>v. v) (Some 0) (Some 1) resid_example 1)"
proof -
  have m: "mean (map snd resid_example) = Some 0"
    by (simp add: resid_example_def mean_def)
  have s: "std (map snd resid_example) = Some 1"
    by (simp add: resid_example_def std_def mean_def)
  have a: "anomalies_of resid_example 1 = [(1, - 1), (2, 1), (3, - 1), (4, 1)]"
    by (simp add: anomalies_of_defined [OF m s]) (simp add: resid_example_def)
  have b: "anomalies_of resid_example 2 = []"
    by (simp add: anomalies_of_defined [OF m s]) (simp add: resid_example_def)
  have h: "(1::real) \<le> 2" by simp
  note t = anomaly_threshold_monotone [OF h, of resid_example "\<lambda>v. v" "Some 1" "Some 0"]
  have "length (anomalies_with (\<lambda>v. v) (Some 0) (Some 1) resid_example 2)
      \<le> length (anomalies_with (\<lambda>v. v) (Some 0) (Some 1) resid_example 1)"
    using t mono_id by simp
  moreover have "set (anomalies_of resid_example 2) \<subseteq> set (anomalies_of resid_example 1)"
    and "length (anomalies_of resid_example 2) \<le> length (anomalies_of resid_example 1)"
    using t by blast+
  ultimately show ?thesis
    using h a b mono_id by blast
qed

text \<open>
  C8. In the controller, selecting a state that no record of the table has, or a state
  and a county that no record has together, leaves no row, and the aggregation by date
  of no rows is the empty table; the selection consists of two boolean masks and has no
  failing case.
\<close>

theorem selection_of_absent_locality:
  "(state_arg \<noteq> [] \<and> (\<forall>r \<in> set full. state r \<noteq> state_arg)
      \<longrightarrow> locality_selection full state_arg county_arg = []
          \<and> locality_df full state_arg county_arg = [])
   \<and> (state_arg \<noteq> [] \<and> county_arg \<noteq> []
        \<and> (\<forall>r \<in> set full. \<not> (state r = state_arg \<and> county r = county_arg))
      \<longrightarrow> locality_selection full state_arg county_arg = []
          \<and> locality_df full state_arg county_arg = [])"
  by (auto simp: locality_selection_def locality_df_def agg_sum_by_date_def Let_def
      filter_empty_conv)

theorem selection_of_absent_locality_witness:
  "full_df dated_table = Inr dated_full
   \<and> ''Texas'' \<noteq> [] \<and> ''Texas'' \<notin> set (map state dated_full)
   \<and> locality_selection dated_full ''Texas'' [] = []
   \<and> locality_df dated_full ''Texas'' [] = []
   \<and> ''Virginia'' \<noteq> [] \<and> ''Kent'' \<noteq> []
   \<and> (''Virginia'', ''Kent'') \<notin> set (map (\<lambda>r. (state r, county r)) dated_full)
   \<and> locality_selection dated_full ''Virginia'' ''Kent'' = []
   \<and> locality_df dated_full ''Virginia'' ''Kent'' = []"
proof -
  have a: "\<forall>r \<in> set dated_full. state r \<noteq> ''Texas''"
    by (simp add: dated_full_def with_daily_def kent_def fairfax_def)
  have b: "\<forall>r \<in> set dated_full. \<not> (state r = ''Virginia'' \<and> county r = ''Kent'')"
    by (simp add: dated_full_def with_daily_def kent_def fairfax_def)
  have c: "''Texas'' \<notin> set (map state dated_full)"
    and d: "(''Virginia'', ''Kent'') \<notin> set (map (\<lambda>r. (state r, county r)) dated_full)"
    using a b by auto
  have "locality_selection dated_full ''Texas'' [] = []
      \<and> locality_df dated_full ''Texas'' [] = []"
    using a selection_of_absent_locality [of "''Texas''" dated_full "[]"]
    by simp
  moreover have "locality_selection dated_full ''Virginia'' ''Kent'' = []
      \<and> locality_df dated_full ''Virginia'' ''Kent'' = []"
    using b selection_of_absent_locality [of "''Virginia''" dated_full "''Kent''"]
    by simp
  ultimately show ?thesis
    using c d full_df_dated_table by simp
qed

text \<open>
  C10. In \<^verbatim>\<open>plot_timeseries\<close> the county is looked at only under a truthy state: with
  the state \<^verbatim>\<open>None\<close> (or empty) the table is not filtered at all, whatever the county,
  and the series is the aggregation by date of the whole table, which is the series the
  figure shows whenever the decomposition of that series does not raise.
\<close>

theorem county_ignored_without_state:
  "local_series df col None county_arg =
     map (\<lambda>(d, v). (d, real_of_int v)) (groupby_date_sum date (column_value col) df)
   \<and> plot_timeseries lib df col None county_arg thr bt ttl
       = plot_timeseries lib df col None None thr bt ttl
   \<and> (\<not> truthy state_arg \<longrightarrow>
        select_locality df state_arg county_arg = df
        \<and> plot_timeseries lib df col state_arg county_arg thr bt ttl
            = plot_timeseries lib df col state_arg None thr bt ttl)
   \<and> (STL lib (map (\<lambda>(d, v). (d, real_of_int v))
          (groupby_date_sum date (column_value col) df)) = None \<longrightarrow>
        plot_timeseries lib df col None county_arg thr bt ttl = None)
   \<and> (STL lib (map (\<lambda>(d, v). (d, real_of_int v))
          (groupby_date_sum date (column_value col) df)) \<noteq> None \<longrightarrow>
        (\<exists>fig. plot_timeseries lib df col None county_arg thr bt ttl = Some fig
           \<and> series_trace fig =
               map (\<lambda>(d, v). (d, real_of_int v))
                 (groupby_date_sum date (column_value col) df)))"
proof -
  have ls: "local_series df col None county_arg =
      map (\<lambda>(d, v). (d, real_of_int v)) (groupby_date_sum date (column_value col) df)"
    by (simp add: local_series_def select_locality_def truthy_def)
  have same: "plot_timeseries lib df col None county_arg thr bt ttl
      = plot_timeseries lib df col None None thr bt ttl"
    by (simp add: local_series_def select_locality_def truthy_def plot_timeseries_def)
  have falsy: "select_locality df state_arg county_arg = df
      \<and> plot_timeseries lib df col state_arg county_arg thr bt ttl
          = plot_timeseries lib df col state_arg None thr bt ttl"
    if "\<not> truthy state_arg"
    using that by (simp add: local_series_def select_locality_def plot_timeseries_def)
  have none: "plot_timeseries lib df col None county_arg thr bt ttl = None"
    if "STL lib (local_series df col None county_arg) = None"
    using that by (simp add: plot_timeseries_def Let_def)
  have some: "\<exists>fig. plot_timeseries lib df col None county_arg thr bt ttl = Some fig
      \<and> series_trace fig = local_series df col None county_arg"
    if "STL lib (local_series df col None county_arg) \<noteq> None"
    using that by (auto simp: plot_timeseries_def Let_def)
  show ?thesis
    using same falsy none some unfolding ls by blast
qed

theorem county_ignored_without_state_witness:
  "\<not> truthy None
   \<and> full_df dated_table = Inr dated_full
   \<and> local_series dated_full Daily_cases None (Some ''Kent'') = [(1, 0), (2, 5), (3, 5)]
   \<and> select_locality dated_full None (Some ''Kent'') = dated_full
   \<and> STL (exact_libraries zero_resid_fit) [(1, 0), (2, 5), (3, 5)] \<noteq> None
   \<and> (\<exists>fig. plot_timeseries (exact_libraries zero_resid_fit) dated_full Daily_cases
               None (Some ''Kent'') None None None = Some fig
          \<and> series_trace fig = [(1, 0), (2, 5), (3, 5)])"
proof -
  have g: "map (\<lambda>(d, v). (d, real_of_int v))
        (groupby_date_sum date (column_value Daily_cases) dated_full)
      = [(1, 0), (2, 5), (3, 5)]"
    by (simp add: dated_full_def groupby_date_sum_def with_daily_def kent_def fairfax_def)
  have h: "\<not> truthy None"
    by (simp add: truthy_def)
  have f: "STL (exact_libraries zero_resid_fit) [(1, 0), (2, 5), (3, 5)] \<noteq> None"
    by (simp add: exact_libraries_def zero_resid_fit_def)
  note t = county_ignored_without_state
    [of dated_full Daily_cases "Some ''Kent''" "exact_libraries zero_resid_fit"
      None None None None, unfolded g]
  have "local_series dated_full Daily_cases None (Some ''Kent'') = [(1, 0), (2, 5), (3, 5)]"
    using t by blast
  moreover have "select_locality dated_full None (Some ''Kent'') = dated_full"
    using t h by blast
  moreover have "\<exists>fig. plot_timeseries (exact_libraries zero_resid_fit) dated_full Daily_cases
        None (Some ''Kent'') None None None = Some fig
      \<and> series_trace fig = [(1, 0), (2, 5), (3, 5)]"
    using t f by blast
  ultimately show ?thesis
    using h f full_df_dated_table by blast
qed


end
